theory Spec2Isabelle
  imports Complex_Main
begin

section \<open>JavaScript values\<close>

text \<open>
  The backend (\<^verbatim>\<open>src/backend/server.js\<close>) is one Node module: a cached CSV reader
  (\<^verbatim>\<open>fetchExpertDatabase\<close>), a gateway to the model API (\<^verbatim>\<open>callClaude\<close>) and three
  request handlers. A JavaScript string is a sequence of UTF-16 code units; a code unit is
  modelled as a natural number, so every text the runtime can hold is covered. Literals of
  the source are written in ASCII through \<open>ascii\<close>.
\<close>

type_synonym jsstring = "nat list"

definition ascii :: "string \<Rightarrow> jsstring" where
  "ascii s = map of_char s"

text \<open>
  The values that reach the handlers come from JSON (request bodies, API replies), plus
  \<^verbatim>\<open>undefined\<close> for an absent property. An object is its list of own properties; only
  look-ups are modelled, so the order of the list has no meaning beyond "later writes win".
  No arithmetic is done on JSON numbers by this program.
\<close>

datatype jsval =
    JUndefined
  | JNull
  | JBool bool
  | JNum real
  | JStr jsstring
  | JArr "jsval list"
  | JObj "(jsstring \<times> jsval) list"

text \<open>An exception object: its \<^verbatim>\<open>message\<close>, and \<^verbatim>\<open>error.response?.data\<close> (undefined
  unless the HTTP client attached a response).\<close>

datatype js_error = JsError (message: jsstring) (response_data: jsval)

text \<open>ToBoolean, as used by \<^verbatim>\<open>!x\<close>, \<^verbatim>\<open>x || y\<close> and \<^verbatim>\<open>x && y\<close>.\<close>

fun truthy :: "jsval \<Rightarrow> bool" where
  "truthy JUndefined = False"
| "truthy JNull = False"
| "truthy (JBool b) = b"
| "truthy (JNum r) = (r \<noteq> 0)"
| "truthy (JStr s) = (s \<noteq> [])"
| "truthy (JArr xs) = True"
| "truthy (JObj kvs) = True"

section \<open>String primitives of the runtime\<close>

text \<open>White space and line terminators of ECMAScript, the code units \<^verbatim>\<open>trim\<close> strips.\<close>

definition js_whitespace :: "nat \<Rightarrow> bool" where
  "js_whitespace c \<longleftrightarrow>
     c \<in> {9, 10, 11, 12, 13, 32, 160, 5760, 8232, 8233, 8239, 8287, 12288, 65279}
     \<or> (8192 \<le> c \<and> c \<le> 8202)"

definition js_trim :: "jsstring \<Rightarrow> jsstring" where
  "js_trim s = rev (dropWhile js_whitespace (rev (dropWhile js_whitespace s)))"

text \<open>\<^verbatim>\<open>s.split(sep)\<close> for a separator of one code unit: always at least one piece.\<close>

fun js_split :: "nat \<Rightarrow> jsstring \<Rightarrow> jsstring list" where
  "js_split sep [] = [[]]"
| "js_split sep (c # cs) =
     (if c = sep then [] # js_split sep cs
      else (case js_split sep cs of
              [] \<Rightarrow> [[c]]
            | p # ps \<Rightarrow> (c # p) # ps))"

text \<open>\<^verbatim>\<open>xs[i]\<close> on an array: \<open>None\<close> stands for \<^verbatim>\<open>undefined\<close> (index out of range).\<close>

definition index :: "'a list \<Rightarrow> nat \<Rightarrow> 'a option" where
  "index xs i = (if i < length xs then Some (xs ! i) else None)"

text \<open>
  \<^verbatim>\<open>parseInt(string)\<close> with no radix: skip leading white space, read a sign, switch to
  radix 16 after \<^verbatim>\<open>0x\<close>/\<^verbatim>\<open>0X\<close>, read the longest prefix of digits. \<open>None\<close> is NaN.
  The result is the exact integer; the runtime rounds it to a double, which is zero exactly
  when the integer is.
\<close>

definition digit_of :: "nat \<Rightarrow> nat option" where
  "digit_of c =
     (if 48 \<le> c \<and> c \<le> 57 then Some (c - 48)
      else if 97 \<le> c \<and> c \<le> 122 then Some (c - 87)
      else if 65 \<le> c \<and> c \<le> 90 then Some (c - 55)
      else None)"

definition radix_digit :: "nat \<Rightarrow> nat \<Rightarrow> bool" where
  "radix_digit R c = (case digit_of c of None \<Rightarrow> False | Some d \<Rightarrow> d < R)"

definition digit_value :: "nat \<Rightarrow> nat" where
  "digit_value c = (case digit_of c of None \<Rightarrow> 0 | Some d \<Rightarrow> d)"

definition parseInt :: "jsstring \<Rightarrow> int option" where
  "parseInt inputString =
     (let S = dropWhile js_whitespace inputString;
          sign = (case S of [] \<Rightarrow> (1::int) | c # _ \<Rightarrow> if c = 45 then - 1 else 1);
          S1 = (case S of [] \<Rightarrow> S | c # rest \<Rightarrow> if c = 43 \<or> c = 45 then rest else S);
          hex = (case S1 of a # b # _ \<Rightarrow> a = 48 \<and> (b = 120 \<or> b = 88) | _ \<Rightarrow> False);
          R = (if hex then 16 else 10);
          S2 = (if hex then drop 2 S1 else S1);
          Z = takeWhile (radix_digit R) S2
      in if Z = [] then None
         else Some (sign * int (foldl (\<lambda>acc c. acc * R + digit_value c) 0 Z)))"

section \<open>The expert directory\<close>

record expert =
  firstName :: jsstring
  lastName :: jsstring
  years :: jsstring
  field1 :: jsstring
  field2 :: jsstring
  descriptor :: jsstring
  field3 :: jsstring
  status :: int
  gender :: jsstring
  geography :: jsstring
  recognizable :: jsstring

text \<open>\<^verbatim>\<open>values[i]?.trim() || dflt\<close>: an absent column and a blank one both give the default.\<close>

definition field :: "jsstring list \<Rightarrow> nat \<Rightarrow> jsstring \<Rightarrow> jsstring" where
  "field values i dflt =
     (case index values i of
        None \<Rightarrow> dflt
      | Some v \<Rightarrow> (if js_trim v \<noteq> [] then js_trim v else dflt))"

text \<open>\<^verbatim>\<open>parseInt(values[7]) || 0\<close>: an absent column is converted to the text
  \<^verbatim>\<open>undefined\<close> before parsing; NaN and zero are falsy and give 0.\<close>

definition status_field :: "jsstring list \<Rightarrow> int" where
  "status_field values =
     (case parseInt (case index values 7 of None \<Rightarrow> ascii ''undefined'' | Some v \<Rightarrow> v) of
        None \<Rightarrow> 0
      | Some n \<Rightarrow> (if n \<noteq> 0 then n else 0))"

definition make_expert :: "jsstring list \<Rightarrow> expert" where
  "make_expert values =
     \<lparr> firstName = field values 1 [],
       lastName = field values 0 [],
       years = field values 2 [],
       field1 = field values 3 [],
       field2 = field values 4 [],
       descriptor = field values 5 [],
       field3 = field values 6 [],
       status = status_field values,
       gender = field values 8 [],
       geography = field values 9 [],
       recognizable = field values 10 (ascii ''No'') \<rparr>"

text \<open>The body of the loop over \<^verbatim>\<open>lines[1..]\<close> (lines 39 to 60): the second argument is
  \<^verbatim>\<open>expertDatabase\<close> as built so far.\<close>

fun read_rows :: "jsstring list \<Rightarrow> expert list \<Rightarrow> expert list" where
  "read_rows [] db = db"
| "read_rows (line # rest) db =
     (if js_trim line = [] then read_rows rest db
      else
        (let values = js_split 44 line;
             expert = make_expert values
         in if firstName expert \<noteq> [] \<and> status expert = 0
            then read_rows rest (db @ [expert])
            else read_rows rest db))"

section \<open>Process state, outbound calls and the outside world\<close>

text \<open>
  What the process does to the outside is recorded in a trace, oldest first: each HTTP
  request it sends and each line it logs. \<open>Enter_fetchExpertDatabase\<close> is a ghost event
  marking an invocation of the directory read.
\<close>

datatype event =
    Enter_fetchExpertDatabase
  | Axios_get jsstring
  | Axios_post jsstring jsval jsval
  | Console_error jsstring "js_error + jsval"

fun is_get :: "event \<Rightarrow> bool" where
  "is_get (Axios_get url) = True"
| "is_get e = False"

fun is_post :: "event \<Rightarrow> bool" where
  "is_post (Axios_post url payload config) = True"
| "is_post e = False"

definition count_gets :: "event list \<Rightarrow> nat" where
  "count_gets t = length (filter is_get t)"

definition count_posts :: "event list \<Rightarrow> nat" where
  "count_posts t = length (filter is_post t)"

definition count_reads :: "event list \<Rightarrow> nat" where
  "count_reads t = length (filter (\<lambda>e. e = Enter_fetchExpertDatabase) t)"

text \<open>The module's two mutable globals, and the trace.\<close>

record world =
  expertDatabase :: "expert list"
  lastFetchTime :: int
  trace :: "event list"

definition initial_world :: world where
  "initial_world = \<lparr> expertDatabase = [], lastFetchTime = 0, trace = [] \<rparr>"

definition emit :: "event \<Rightarrow> world \<Rightarrow> world" where
  "emit e w = w\<lparr> trace := trace w @ [e] \<rparr>"

text \<open>
  Everything the code reads from outside, and the builtins whose results depend on the
  engine. The outcome of the \<open>n\<close>-th GET (POST) of the process is \<open>axios_get n\<close>
  (\<open>axios_post n\<close>): \<open>Inl\<close> an exception, \<open>Inr\<close> the \<^verbatim>\<open>response.data\<close>. A second
  attempt of a call would therefore read the next outcome.
\<close>

record env =
  Date_now :: int
  axios_get :: "nat \<Rightarrow> js_error + jsval"
  axios_post :: "nat \<Rightarrow> js_error + jsval"
  JSON_parse :: "jsval \<Rightarrow> js_error + jsval"
  Number_toString :: "real \<Rightarrow> jsstring"
  TypeError_message :: "jsstring \<Rightarrow> jsstring"
  CLAUDE_API_KEY :: jsval

definition TypeError :: "env \<Rightarrow> string \<Rightarrow> js_error" where
  "TypeError env what = JsError (TypeError_message env (ascii what)) JUndefined"

definition CACHE_DURATION :: int where
  "CACHE_DURATION = 5 * 60 * 1000"

definition sheetId :: jsstring where
  "sheetId = ascii ''1v-As-SdoND3CYUm59o_LCMICpHOvRv98bYGh8JAHvG0''"

definition csvUrl :: jsstring where
  "csvUrl = ascii ''https://docs.google.com/spreadsheets/d/'' @ sheetId
            @ ascii ''/export?format=csv''"

text \<open>
  \<^verbatim>\<open>fetchExpertDatabase\<close> (lines 22 to 68). \<^verbatim>\<open>response.data.split\<close> exists only on a
  string; on any other reply the call throws a TypeError, inside the \<^verbatim>\<open>try\<close>. Line 35
  (\<^verbatim>\<open>headers\<close>) reads \<^verbatim>\<open>lines[0]\<close>, which always exists, and its value is unused.
  Nothing after the reassignment of line 37 can throw (\<^verbatim>\<open>trim\<close>, \<^verbatim>\<open>split\<close> and
  \<^verbatim>\<open>parseInt\<close> are total on strings), so the two failures below are the only ones. The
  \<^verbatim>\<open>catch\<close> handles both: the function never throws, it returns the directory and
  the new state.
\<close>

definition fetchExpertDatabase :: "env \<Rightarrow> world \<Rightarrow> expert list \<times> world" where
  "fetchExpertDatabase env w0 =
     (let w = emit Enter_fetchExpertDatabase w0;
          now = Date_now env
      in if length (expertDatabase w) > 0 \<and> now - lastFetchTime w < CACHE_DURATION
         then (expertDatabase w, w)
         else
           (let n = count_gets (trace w);
                w1 = emit (Axios_get csvUrl) w;
                failed = (\<lambda>error.
                  (let w2 = emit (Console_error (ascii ''Error fetching expert database:'')
                                    (Inl error)) w1
                   in (expertDatabase w2, w2)))
            in case axios_get env n of
                 Inl error \<Rightarrow> failed error
               | Inr (JStr text) \<Rightarrow>
                   (let lines = js_split 10 text;
                        w2 = w1\<lparr> expertDatabase := [] \<rparr>;
                        w3 = w2\<lparr> expertDatabase := read_rows (drop 1 lines) (expertDatabase w2) \<rparr>;
                        w4 = w3\<lparr> lastFetchTime := now \<rparr>
                    in (expertDatabase w4, w4))
               | Inr other \<Rightarrow> failed (TypeError env ''response.data.split'')))"

section \<open>Objects, property reads and string conversion\<close>

text \<open>
  A property read \<^verbatim>\<open>v.k\<close>: a TypeError on \<^verbatim>\<open>undefined\<close> and \<^verbatim>\<open>null\<close>, the own
  property of an object, \<^verbatim>\<open>undefined\<close> otherwise. It is used at the names
  \<^verbatim>\<open>challenge\<close>, \<^verbatim>\<open>challengeType\<close>, \<^verbatim>\<open>team\<close>, \<^verbatim>\<open>name\<close>, \<^verbatim>\<open>content\<close> and
  \<^verbatim>\<open>text\<close>, none of which a prototype of a JSON value defines.
\<close>

fun nullish :: "jsval \<Rightarrow> bool" where
  "nullish JUndefined = True"
| "nullish JNull = True"
| "nullish v = False"

fun own_property :: "jsval \<Rightarrow> jsstring \<Rightarrow> jsval" where
  "own_property (JObj kvs) k = (case map_of kvs k of None \<Rightarrow> JUndefined | Some v \<Rightarrow> v)"
| "own_property v k = JUndefined"

definition js_prop :: "env \<Rightarrow> jsval \<Rightarrow> string \<Rightarrow> js_error + jsval" where
  "js_prop env v k = (if nullish v then Inl (TypeError env k) else Inr (own_property v (ascii k)))"

text \<open>The read \<^verbatim>\<open>v[0]\<close>: the first element of an array, the first code unit of a string.\<close>

fun element0 :: "jsval \<Rightarrow> jsval" where
  "element0 (JArr []) = JUndefined"
| "element0 (JArr (x # xs)) = x"
| "element0 (JStr []) = JUndefined"
| "element0 (JStr (c # cs)) = JStr [c]"
| "element0 v = own_property v (ascii ''0'')"

definition js_elem0 :: "env \<Rightarrow> jsval \<Rightarrow> js_error + jsval" where
  "js_elem0 env v = (if nullish v then Inl (TypeError env ''0'') else Inr (element0 v))"

text \<open>\<^verbatim>\<open>pieces.join(sep)\<close> on strings.\<close>

fun js_join :: "jsstring \<Rightarrow> jsstring list \<Rightarrow> jsstring" where
  "js_join sep [] = []"
| "js_join sep [s] = s"
| "js_join sep (s # t # rest) = s @ sep @ js_join sep (t # rest)"

text \<open>
  ToString, as a template literal and \<^verbatim>\<open>Array.prototype.join\<close> apply it. An array is
  joined with commas, \<^verbatim>\<open>undefined\<close> and \<^verbatim>\<open>null\<close> elements giving the empty text. A
  plain object gives \<^verbatim>\<open>[object Object]\<close>, unless it has an own property
  \<^verbatim>\<open>toString\<close>: a JSON value is not callable, no primitive is obtained and a TypeError is
  thrown. The digits of a number are the engine's (\<open>Number_toString\<close>).
\<close>

fun ToString :: "env \<Rightarrow> jsval \<Rightarrow> js_error + jsstring"
  and element_strings :: "env \<Rightarrow> jsval list \<Rightarrow> js_error + jsstring list" where
  "ToString env JUndefined = Inr (ascii ''undefined'')"
| "ToString env JNull = Inr (ascii ''null'')"
| "ToString env (JBool b) = Inr (if b then ascii ''true'' else ascii ''false'')"
| "ToString env (JNum r) = Inr (Number_toString env r)"
| "ToString env (JStr s) = Inr s"
| "ToString env (JArr xs) =
     (case element_strings env xs of
        Inl error \<Rightarrow> Inl error
      | Inr pieces \<Rightarrow> Inr (js_join (ascii '','') pieces))"
| "ToString env (JObj kvs) =
     (if map_of kvs (ascii ''toString'') = None then Inr (ascii ''[object Object]'')
      else Inl (TypeError env ''toString''))"
| "element_strings env [] = Inr []"
| "element_strings env (x # xs) =
     (case (if nullish x then Inr [] else ToString env x) of
        Inl error \<Rightarrow> Inl error
      | Inr piece \<Rightarrow>
          (case element_strings env xs of
             Inl error \<Rightarrow> Inl error
           | Inr pieces \<Rightarrow> Inr (piece # pieces)))"

text \<open>Decimal digits of an array index, the name of the property that holds the element.\<close>

function decimal :: "nat \<Rightarrow> jsstring" where
  "decimal n = (if n < 10 then [48 + n] else decimal (n div 10) @ [48 + n mod 10])"
  by pat_completeness auto
termination
  by (relation "measure id") auto

declare decimal.simps [simp del]

text \<open>
  An object literal is evaluated left to right: \<open>obj_put\<close> defines one property,
  replacing the value of a name already present; \<open>spread\<close> is \<^verbatim>\<open>...v\<close>, which copies
  the own enumerable properties of \<open>v\<close>: those of an object, the elements of an array and
  the code units of a string under their indices, nothing for any other value.
\<close>

fun obj_put :: "jsstring \<Rightarrow> jsval \<Rightarrow> (jsstring \<times> jsval) list \<Rightarrow> (jsstring \<times> jsval) list" where
  "obj_put k v [] = [(k, v)]"
| "obj_put k v (p # ps) = (if fst p = k then (k, v) # ps else p # obj_put k v ps)"

fun own_properties :: "jsval \<Rightarrow> (jsstring \<times> jsval) list" where
  "own_properties (JObj kvs) = kvs"
| "own_properties (JArr xs) = zip (map decimal [0..<length xs]) xs"
| "own_properties (JStr s) = zip (map decimal [0..<length s]) (map (\<lambda>c. JStr [c]) s)"
| "own_properties v = []"

definition spread :: "jsval \<Rightarrow> (jsstring \<times> jsval) list \<Rightarrow> (jsstring \<times> jsval) list" where
  "spread v obj = fold (\<lambda>p. obj_put (fst p) (snd p)) (own_properties v) obj"

section \<open>The model gateway\<close>

definition CLAUDE_API_URL :: jsstring where
  "CLAUDE_API_URL = ascii ''https://api.anthropic.com/v1/messages''"

definition claude_payload :: "jsstring \<Rightarrow> jsval \<Rightarrow> jsval" where
  "claude_payload systemPrompt userMessage =
     JObj [(ascii ''model'', JStr (ascii ''claude-opus-4-5-20251101'')),
           (ascii ''max_tokens'', JNum 2000),
           (ascii ''system'', JStr systemPrompt),
           (ascii ''messages'',
              JArr [JObj [(ascii ''role'', JStr (ascii ''user'')),
                          (ascii ''content'', userMessage)]])]"

definition claude_config :: "env \<Rightarrow> jsval" where
  "claude_config env =
     JObj [(ascii ''headers'',
              JObj [(ascii ''x-api-key'', CLAUDE_API_KEY env),
                    (ascii ''anthropic-version'', JStr (ascii ''2023-06-01''))])]"

text \<open>\<^verbatim>\<open>response.data.content[0].text\<close> (line 91), each read of which can throw.\<close>

definition completion_text :: "env \<Rightarrow> jsval \<Rightarrow> js_error + jsval" where
  "completion_text env data =
     (case js_prop env data ''content'' of
        Inl error \<Rightarrow> Inl error
      | Inr content \<Rightarrow>
          (case js_elem0 env content of
             Inl error \<Rightarrow> Inl error
           | Inr first \<Rightarrow> js_prop env first ''text''))"

text \<open>
  \<^verbatim>\<open>callClaude\<close> (lines 71 to 96): one POST; any exception of the \<^verbatim>\<open>try\<close> block is
  logged (\<^verbatim>\<open>error.response?.data || error.message\<close>) and thrown again.
\<close>

definition callClaude :: "env \<Rightarrow> jsstring \<Rightarrow> jsval \<Rightarrow> world \<Rightarrow> (js_error + jsval) \<times> world" where
  "callClaude env systemPrompt userMessage w =
     (let n = count_posts (trace w);
          w1 = emit (Axios_post CLAUDE_API_URL (claude_payload systemPrompt userMessage)
                       (claude_config env)) w;
          outcome = (case axios_post env n of
                       Inl error \<Rightarrow> Inl error
                     | Inr data \<Rightarrow> completion_text env data)
      in case outcome of
           Inl error \<Rightarrow>
             (Inl error,
              emit (Console_error (ascii ''Claude API error:'')
                      (Inr (if truthy (response_data error) then response_data error
                            else JStr (message error)))) w1)
         | Inr text \<Rightarrow> (Inr text, w1))"

section \<open>The phase handlers\<close>

record response =
  statusCode :: nat
  body :: jsval

text \<open>\<^verbatim>\<open>res.json(obj)\<close>, \<^verbatim>\<open>res.status(400).json({error: msg})\<close> and
  \<^verbatim>\<open>res.status(500).json({error: error.message})\<close>.\<close>

definition ok :: "(jsstring \<times> jsval) list \<Rightarrow> response" where
  "ok obj = \<lparr> statusCode = 200, body = JObj obj \<rparr>"

definition bad_request :: "string \<Rightarrow> response" where
  "bad_request msg = \<lparr> statusCode = 400, body = JObj [(ascii ''error'', JStr (ascii msg))] \<rparr>"

definition server_error :: "js_error \<Rightarrow> response" where
  "server_error error = \<lparr> statusCode = 500, body = JObj [(ascii ''error'', JStr (message error))] \<rparr>"

text \<open>The lines of a template literal, joined by line feeds.\<close>

definition text_lines :: "jsstring list \<Rightarrow> jsstring" where
  "text_lines ls = js_join [10] ls"

definition PHASE1_PROMPT :: jsstring where
  \<open>PHASE1_PROMPT = text_lines
    [ascii ''You are the Perspectivology Cognitive Engine operating in PHASE 1 '' @ [8212] @ ascii '' CLARITY CAPTURE.'',
     [],
     ascii ''Your task:'',
     ascii ''1. Paraphrase the challenge clearly without invention'',
     ascii ''2. Identify the challenge type (Decision, Strategic planning, Conflict, Career transition, Ethical dilemma, or Problem-solving)'',
     ascii ''3. If "why it matters" is missing, ask for it'',
     ascii ''4. Do NOT give advice yet'',
     [],
     ascii ''Output as JSON:'',
     ascii ''{'',
     ascii ''  "paraphrase": "Clear restatement of the challenge",'',
     ascii ''  "challengeType": "Type identified",'',
     ascii ''  "whyItMatters": "User's explanation or null if missing",'',
     ascii ''  "needsWhyItMatters": true/false,'',
     ascii ''  "clarifyingQuestion": "Question to ask if needed (or null)"'',
     ascii ''}'']\<close>

definition phase2_prompt :: "jsstring \<Rightarrow> jsstring" where
  \<open>phase2_prompt expertPool = text_lines
    [ascii ''You are the Perspectivology Cognitive Engine operating in PHASE 2 '' @ [8212] @ ascii '' DREAM TEAM CONSTRUCTION.'',
     [],
     ascii ''You must construct exactly 9 experts based on this pool:'',
     [],
     expertPool,
     [],
     ascii ''Rules:'',
     ascii ''- Status 0 = available (ONLY use these)'',
     ascii ''- Generate exactly 9 experts'',
     ascii ''- Composition: 1 Strategic, 1 Analytical/Data, 1 Ethical, 1 Psychological/Behavioral, 1 Implementation, 1 Systems thinker, 1 Contrarian, 2 context-specific domain experts'',
     ascii ''- No duplication of cognitive lens'',
     ascii ''- Ensure disciplinary diversity'',
     [],
     ascii ''Output as JSON:'',
     ascii ''{'',
     ascii ''  "team": ['',
     ascii ''    {'',
     ascii ''      "name": "Full Name",'',
     ascii ''      "years": "Years active",'',
     ascii ''      "field": "Primary field",'',
     ascii ''      "relevance": "One precise sentence how they help with this challenge",'',
     ascii ''      "role": "Strategic/Analytical/Ethical/Psychological/Implementation/Systems/Contrarian/Domain"'',
     ascii ''    }'',
     ascii ''  ],'',
     ascii ''  "composition": "Brief explanation of team diversity"'',
     ascii ''}'']\<close>

definition phase3_prompt :: "jsstring \<Rightarrow> jsstring" where
  \<open>phase3_prompt teamNames = text_lines
    [ascii ''You are the Perspectivology Cognitive Engine operating in PHASE 3 '' @ [8212] @ ascii '' COGNITIVE ENGINE INTERROGATION.'',
     [],
     ascii ''You will ask 5 context-revealing questions, ONE AT A TIME. Each question reveals assumptions, constraints, incentives, trade-offs, or emotional drivers.'',
     [],
     ascii ''Your Dream Team: '' @ teamNames,
     [],
     ascii ''Output as JSON:'',
     ascii ''{'',
     ascii ''  "questionNumber": 1,'',
     ascii ''  "question": "Question text here",'',
     ascii ''  "askedBy": "Team member name",'',
     ascii ''  "reveals": "What this question reveals (assumptions/constraints/incentives/trade-offs/emotional drivers)"'',
     ascii ''}'']\<close>

text \<open>\<^verbatim>\<open>const { challenge, ... } = req.body\<close> reads own properties of the parsed body and
  throws on a body that is \<^verbatim>\<open>undefined\<close> or \<^verbatim>\<open>null\<close>; that statement stands before
  the \<^verbatim>\<open>try\<close>, so the handler then ends without a response (\<open>Inl\<close>).\<close>

type_synonym handler_result = "(js_error + response) \<times> world"

text \<open>Phase 1 (lines 99 to 134). The challenge is handed to the gateway as it came.\<close>

definition phase1 :: "env \<Rightarrow> jsval \<Rightarrow> world \<Rightarrow> handler_result" where
  "phase1 env req_body w =
     (if nullish req_body then (Inl (TypeError env ''req.body''), w)
      else
        (let challenge = own_property req_body (ascii ''challenge'')
         in if \<not> truthy challenge then (Inr (bad_request ''Challenge required''), w)
            else
              (let systemPrompt = PHASE1_PROMPT
               in case callClaude env systemPrompt challenge w of
                    (Inl error, w1) \<Rightarrow> (Inr (server_error error), w1)
                  | (Inr response, w1) \<Rightarrow>
                      (case JSON_parse env response of
                         Inl error \<Rightarrow> (Inr (server_error error), w1)
                       | Inr parsed \<Rightarrow>
                           (Inr (ok (spread parsed
                                  (obj_put (ascii ''phase'') (JNum 1) []))), w1)))))"

text \<open>One line of the expert pool (line 149).\<close>

definition render_expert :: "expert \<Rightarrow> jsstring" where
  "render_expert e =
     firstName e @ ascii '' '' @ lastName e @ ascii '' ('' @ years e @ ascii '') - ''
     @ field1 e @ ascii '', '' @ descriptor e"

text \<open>The user message of phase 2 (line 179), a template literal over both fields.\<close>

definition phase2_message :: "env \<Rightarrow> jsval \<Rightarrow> jsval \<Rightarrow> js_error + jsstring" where
  "phase2_message env challengeType challenge =
     (case ToString env challengeType of
        Inl error \<Rightarrow> Inl error
      | Inr ct \<Rightarrow>
          (case ToString env challenge of
             Inl error \<Rightarrow> Inl error
           | Inr c \<Rightarrow> Inr (ascii ''Challenge type: '' @ ct @ [10] @ ascii ''Challenge: '' @ c)))"

text \<open>Phase 2 (lines 137 to 191).\<close>

definition phase2 :: "env \<Rightarrow> jsval \<Rightarrow> world \<Rightarrow> handler_result" where
  "phase2 env req_body w =
     (if nullish req_body then (Inl (TypeError env ''req.body''), w)
      else
        (let challenge = own_property req_body (ascii ''challenge'');
             challengeType = own_property req_body (ascii ''challengeType'')
         in if \<not> truthy challenge \<or> \<not> truthy challengeType
            then (Inr (bad_request ''Challenge and challengeType required''), w)
            else
              (case fetchExpertDatabase env w of
                 (experts, w1) \<Rightarrow>
                   (let expertPool = js_join [10] (map render_expert experts);
                        systemPrompt = phase2_prompt expertPool
                    in case phase2_message env challengeType challenge of
                         Inl error \<Rightarrow> (Inr (server_error error), w1)
                       | Inr userMessage \<Rightarrow>
                           (case callClaude env systemPrompt (JStr userMessage) w1 of
                              (Inl error, w2) \<Rightarrow> (Inr (server_error error), w2)
                            | (Inr response, w2) \<Rightarrow>
                                (case JSON_parse env response of
                                   Inl error \<Rightarrow> (Inr (server_error error), w2)
                                 | Inr parsed \<Rightarrow>
                                     (Inr (ok (obj_put (ascii ''swapLimit'') (JNum 3)
                                            (obj_put (ascii ''swapAvailable'') (JBool True)
                                              (spread parsed
                                                (obj_put (ascii ''phase'') (JNum 2) []))))),
                                      w2)))))))"

text \<open>\<^verbatim>\<open>team.map(e => e.name).join(', ')\<close> (line 202): only an array has \<^verbatim>\<open>map\<close>, and
  reading \<^verbatim>\<open>name\<close> throws on a \<^verbatim>\<open>null\<close> member.\<close>

fun member_names :: "env \<Rightarrow> jsval list \<Rightarrow> js_error + jsval list" where
  "member_names env [] = Inr []"
| "member_names env (e # es) =
     (case js_prop env e ''name'' of
        Inl error \<Rightarrow> Inl error
      | Inr name \<Rightarrow>
          (case member_names env es of
             Inl error \<Rightarrow> Inl error
           | Inr names \<Rightarrow> Inr (name # names)))"

definition team_names :: "env \<Rightarrow> jsval \<Rightarrow> js_error + jsstring" where
  "team_names env team =
     (case team of
        JArr members \<Rightarrow>
          (case member_names env members of
             Inl error \<Rightarrow> Inl error
           | Inr names \<Rightarrow>
               (case element_strings env names of
                  Inl error \<Rightarrow> Inl error
                | Inr pieces \<Rightarrow> Inr (js_join (ascii '', '') pieces)))
      | _ \<Rightarrow> Inl (TypeError env ''team.map''))"

definition phase3_message :: "env \<Rightarrow> jsval \<Rightarrow> js_error + jsstring" where
  "phase3_message env challenge =
     (case ToString env challenge of
        Inl error \<Rightarrow> Inl error
      | Inr c \<Rightarrow> Inr (ascii ''Challenge: '' @ c))"

text \<open>Phase 3 (lines 194 to 229).\<close>

definition phase3 :: "env \<Rightarrow> jsval \<Rightarrow> world \<Rightarrow> handler_result" where
  "phase3 env req_body w =
     (if nullish req_body then (Inl (TypeError env ''req.body''), w)
      else
        (let challenge = own_property req_body (ascii ''challenge'');
             team = own_property req_body (ascii ''team'')
         in if \<not> truthy challenge \<or> \<not> truthy team
            then (Inr (bad_request ''Challenge and team required''), w)
            else
              (case team_names env team of
                 Inl error \<Rightarrow> (Inr (server_error error), w)
               | Inr teamNames \<Rightarrow>
                   (let systemPrompt = phase3_prompt teamNames
                    in case phase3_message env challenge of
                         Inl error \<Rightarrow> (Inr (server_error error), w)
                       | Inr userMessage \<Rightarrow>
                           (case callClaude env systemPrompt (JStr userMessage) w of
                              (Inl error, w1) \<Rightarrow> (Inr (server_error error), w1)
                            | (Inr response, w1) \<Rightarrow>
                                (case JSON_parse env response of
                                   Inl error \<Rightarrow> (Inr (server_error error), w1)
                                 | Inr parsed \<Rightarrow>
                                     (Inr (ok (obj_put (ascii ''totalQuestions'') (JNum 5)
                                            (spread parsed
                                              (obj_put (ascii ''phase'') (JNum 3) [])))),
                                      w1)))))))"

text \<open>The liveness probe (lines 232 to 234).\<close>

definition health :: response where
  "health = ok [(ascii ''status'', JStr (ascii ''ok''))]"

text \<open>
  The states of the process: the module is loaded with an empty directory; the
  \<^verbatim>\<open>listen\<close> callback reads the directory once; then requests are served. Each step
  below is one invocation, under any answers of the outside world, run from start to end:
  the interleaving of two invocations at an \<^verbatim>\<open>await\<close> is not modelled.
\<close>

inductive reachable :: "world \<Rightarrow> bool" where
  loaded: "reachable initial_world"
| directory_read: "reachable w \<Longrightarrow> reachable (snd (fetchExpertDatabase env w))"
| served1: "reachable w \<Longrightarrow> reachable (snd (phase1 env req_body w))"
| served2: "reachable w \<Longrightarrow> reachable (snd (phase2 env req_body w))"
| served3: "reachable w \<Longrightarrow> reachable (snd (phase3 env req_body w))"

section \<open>The retention rule as the specification words it\<close>

text \<open>
  The specification describes the directory by a rule on rows: a row is kept iff its
  first-name attribute (column 1) is non-empty after trimming and its status attribute
  (column 7) parses to 0, an absent or non-numeric status counting as 0. The definitions
  below follow those words; the theorems compare them with the loop of the source.
\<close>

definition spec_column :: "jsstring \<Rightarrow> nat \<Rightarrow> jsstring option" where
  "spec_column row i = index (js_split 44 row) i"

definition spec_first_name :: "jsstring \<Rightarrow> jsstring" where
  "spec_first_name row = (case spec_column row 1 of None \<Rightarrow> [] | Some v \<Rightarrow> js_trim v)"

definition spec_status :: "jsstring \<Rightarrow> int" where
  "spec_status row =
     (case spec_column row 7 of
        None \<Rightarrow> 0
      | Some v \<Rightarrow> (case parseInt v of None \<Rightarrow> 0 | Some n \<Rightarrow> n))"

definition spec_retained :: "jsstring \<Rightarrow> bool" where
  "spec_retained row \<longleftrightarrow> spec_first_name row \<noteq> [] \<and> spec_status row = 0"

definition row_record :: "jsstring \<Rightarrow> expert" where
  "row_record row = make_expert (js_split 44 row)"

text \<open>What the loop requires of a record before it pushes it (line 57).\<close>

definition available :: "expert \<Rightarrow> bool" where
  "available e \<longleftrightarrow> status e = 0 \<and> firstName e \<noteq> []"

text \<open>The condition under which line 24 serves the cache.\<close>

definition cache_served :: "env \<Rightarrow> world \<Rightarrow> bool" where
  "cache_served env w \<longleftrightarrow>
     expertDatabase w \<noteq> [] \<and> Date_now env - lastFetchTime w < CACHE_DURATION"

text \<open>A fetch that fails: the GET throws, or its reply is not a text (no \<^verbatim>\<open>split\<close>).\<close>

fun fetch_fails :: "js_error + jsval \<Rightarrow> bool" where
  "fetch_fails (Inl error) = True"
| "fetch_fails (Inr (JStr text)) = False"
| "fetch_fails (Inr other) = True"

text \<open>The number of entries of the \<^verbatim>\<open>team\<close> field of a response, when it is an array.\<close>

definition team_entries :: "response \<Rightarrow> nat option" where
  "team_entries r =
     (case own_property (body r) (ascii ''team'') of
        JArr members \<Rightarrow> Some (length members)
      | _ \<Rightarrow> None)"

section \<open>Concrete surroundings for the examples\<close>

text \<open>
  The examples below run the handlers against fixed answers of the outside world: a clock
  reading, one outcome for every GET and one for every POST. The general theorems take
  \<^verbatim>\<open>JSON.parse\<close> and the other builtins as arbitrary functions; the examples need them
  at a few arguments only. \<open>JSON_parse_table\<close> lists three outputs of the model, each
  valid JSON, with the value \<^verbatim>\<open>JSON.parse\<close> gives for it; the examples parse no other
  text. They convert no number to a string either (\<open>Number_toString\<close> below is right on
  the natural numbers).
\<close>

definition output_empty_team :: jsstring where
  \<open>output_empty_team = ascii ''{"team":[]}''\<close>

definition output_overriding :: jsstring where
  \<open>output_overriding =
     ascii ''{"phase":7,"swapLimit":0,"swapAvailable":false,"totalQuestions":99}''\<close>

definition output_question6 :: jsstring where
  \<open>output_question6 = ascii ''{"questionNumber":6,"totalQuestions":99}''\<close>

definition JSON_parse_table :: "(jsstring \<times> jsval) list" where
  "JSON_parse_table =
     [(output_empty_team, JObj [(ascii ''team'', JArr [])]),
      (output_overriding,
         JObj [(ascii ''phase'', JNum 7), (ascii ''swapLimit'', JNum 0),
               (ascii ''swapAvailable'', JBool False), (ascii ''totalQuestions'', JNum 99)]),
      (output_question6,
         JObj [(ascii ''questionNumber'', JNum 6), (ascii ''totalQuestions'', JNum 99)])]"

definition sample_JSON_parse :: "jsval \<Rightarrow> js_error + jsval" where
  "sample_JSON_parse v =
     (case v of
        JStr s \<Rightarrow>
          (case map_of JSON_parse_table s of
             Some parsed \<Rightarrow> Inr parsed
           | None \<Rightarrow> Inl (JsError (ascii ''Unexpected token'') JUndefined))
      | _ \<Rightarrow> Inl (JsError (ascii ''Unexpected token'') JUndefined))"

definition sample_env :: "int \<Rightarrow> js_error + jsval \<Rightarrow> js_error + jsval \<Rightarrow> env" where
  "sample_env now get_outcome post_outcome =
     \<lparr> Date_now = now,
       axios_get = (\<lambda>n. get_outcome),
       axios_post = (\<lambda>n. post_outcome),
       JSON_parse = sample_JSON_parse,
       Number_toString = (\<lambda>r. decimal (nat \<lfloor>r\<rfloor>)),
       TypeError_message = (\<lambda>what. ascii ''Cannot read '' @ what),
       CLAUDE_API_KEY = JStr (ascii ''test-key'') \<rparr>"

text \<open>A reply of the model API whose first content block carries the given text.\<close>

definition claude_reply :: "jsstring \<Rightarrow> js_error + jsval" where
  "claude_reply t =
     Inr (JObj [(ascii ''content'',
                 JArr [JObj [(ascii ''type'', JStr (ascii ''text'')),
                             (ascii ''text'', JStr t)]])])"

definition network_down :: "js_error + jsval" where
  "network_down = Inl (JsError (ascii ''Network Error'') JUndefined)"

text \<open>Surroundings in which every remote call fails.\<close>

definition offline_env :: env where
  "offline_env = sample_env 1000 network_down network_down"

definition sample_csv :: jsstring where
  "sample_csv = js_join [10]
     [ascii ''Last,First'',
      ascii ''Doe,Jane,10,Ethics,,Moral philosopher,,0,F,EU,Yes'',
      ascii ''Roe,Rick,5,Law,,Litigator,,1'',
      ascii ''  '',
      ascii ''Poe, Ann '',
      ascii ''Moe,,3,Art,,Painter,,0'']"

definition jane :: expert where
  "jane = \<lparr> firstName = ascii ''Jane'', lastName = ascii ''Doe'', years = ascii ''10'',
            field1 = ascii ''Ethics'', field2 = [], descriptor = ascii ''Moral philosopher'',
            field3 = [], status = 0, gender = ascii ''F'', geography = ascii ''EU'',
            recognizable = ascii ''Yes'' \<rparr>"

definition ann :: expert where
  "ann = \<lparr> firstName = ascii ''Ann'', lastName = ascii ''Poe'', years = [],
           field1 = [], field2 = [], descriptor = [],
           field3 = [], status = 0, gender = [], geography = [],
           recognizable = ascii ''No'' \<rparr>"

text \<open>The state after the start-up read has fetched \<open>sample_csv\<close> at time 1000, and the
  state after it has fetched a sheet that holds a header and no row.\<close>

definition world_with_two_experts :: world where
  "world_with_two_experts =
     snd (fetchExpertDatabase (sample_env 1000 (Inr (JStr sample_csv)) network_down)
            initial_world)"

definition world_after_empty_refresh :: world where
  "world_after_empty_refresh =
     snd (fetchExpertDatabase (sample_env 1000 (Inr (JStr (ascii ''Last,First''))) network_down)
            initial_world)"


definition request1 :: jsval where
  "request1 = JObj [(ascii ''challenge'', JStr (ascii ''Should I move abroad?''))]"

definition request2 :: jsval where
  "request2 = JObj [(ascii ''challenge'', JStr (ascii ''Should I move abroad?'')),
                    (ascii ''challengeType'', JStr (ascii ''Decision''))]"


definition request3 :: jsval where
  "request3 = JObj [(ascii ''challenge'', JStr (ascii ''Should I move abroad?'')),
                    (ascii ''team'', JArr [JObj [(ascii ''name'', JStr (ascii ''Ada''))],
                                           JObj [(ascii ''name'', JStr (ascii ''Kurt''))]])]"


section \<open>Basic facts about traces, responses and rows\<close>

lemma emit_fields [simp]:
  "expertDatabase (emit e w) = expertDatabase w"
  "lastFetchTime (emit e w) = lastFetchTime w"
  "trace (emit e w) = trace w @ [e]"
  by (simp_all add: emit_def)

lemma count_gets_simps [simp]:
  "count_gets [] = 0"
  "count_gets (e # t) = (if is_get e then 1 else 0) + count_gets t"
  "count_gets (t @ u) = count_gets t + count_gets u"
  by (simp_all add: count_gets_def)

lemma count_posts_simps [simp]:
  "count_posts [] = 0"
  "count_posts (e # t) = (if is_post e then 1 else 0) + count_posts t"
  "count_posts (t @ u) = count_posts t + count_posts u"
  by (simp_all add: count_posts_def)

lemma count_reads_simps [simp]:
  "count_reads [] = 0"
  "count_reads (e # t) = (if e = Enter_fetchExpertDatabase then 1 else 0) + count_reads t"
  "count_reads (t @ u) = count_reads t + count_reads u"
  by (simp_all add: count_reads_def)

lemma initial_world_fields [simp]:
  "expertDatabase initial_world = []"
  "lastFetchTime initial_world = 0"
  "trace initial_world = []"
  by (simp_all add: initial_world_def)

lemma sample_env_fields [simp]:
  "Date_now (sample_env now g p) = now"
  "axios_get (sample_env now g p) n = g"
  "axios_post (sample_env now g p) n = p"
  "JSON_parse (sample_env now g p) = sample_JSON_parse"
  by (simp_all add: sample_env_def)

lemma offline_env_fields:
  "Date_now offline_env = 1000"
  "axios_get offline_env n = Inl (JsError (ascii ''Network Error'') JUndefined)"
  "axios_post offline_env n = Inl (JsError (ascii ''Network Error'') JUndefined)"
  by (simp_all add: offline_env_def network_down_def)

lemma response_codes [simp]:
  "statusCode (ok obj) = 200" "body (ok obj) = JObj obj"
  "statusCode (bad_request msg) = 400"
  "body (bad_request msg) = JObj [(ascii ''error'', JStr (ascii msg))]"
  "statusCode (server_error error) = 500"
  by (simp_all add: ok_def bad_request_def server_error_def)

lemma js_trim_empty_iff: "js_trim s = [] \<longleftrightarrow> (\<forall>c \<in> set s. js_whitespace c)"
proof
  assume "js_trim s = []"
  then have "dropWhile js_whitespace (rev (dropWhile js_whitespace s)) = []"
    by (simp add: js_trim_def)
  then have all: "\<forall>c \<in> set (dropWhile js_whitespace s). js_whitespace c"
    by simp
  have "dropWhile js_whitespace s = []"
  proof (cases "dropWhile js_whitespace s")
    case Nil
    then show ?thesis .
  next
    case (Cons c cs)
    then have "\<not> js_whitespace c"
      using hd_dropWhile [of js_whitespace s] by simp
    with all Cons show ?thesis by simp
  qed
  then show "\<forall>c \<in> set s. js_whitespace c"
    by simp
next
  assume "\<forall>c \<in> set s. js_whitespace c"
  then have blank: "dropWhile js_whitespace s = []"
    by simp
  show "js_trim s = []"
    unfolding js_trim_def blank by simp
qed

lemma js_split_no_separator: "sep \<notin> set s \<Longrightarrow> js_split sep s = [s]"
  by (induction s) auto

lemma comma_not_whitespace: "\<not> js_whitespace 44"
  by (simp add: js_whitespace_def)

lemma blank_line_one_column:
  assumes "js_trim line = []"
  shows "js_split 44 line = [line]"
proof -
  have "44 \<notin> set line"
    using assms comma_not_whitespace by (auto simp: js_trim_empty_iff)
  then show ?thesis by (rule js_split_no_separator)
qed

lemma blank_line_not_retained: "js_trim line = [] \<Longrightarrow> \<not> spec_retained line"
  by (simp add: spec_retained_def spec_first_name_def spec_column_def index_def
      blank_line_one_column)

lemma parseInt_undefined: "parseInt (ascii ''undefined'') = None"
  by (simp add: parseInt_def ascii_def js_whitespace_def radix_digit_def digit_of_def)

lemma firstName_row_record: "firstName (row_record row) = spec_first_name row"
  by (simp add: row_record_def make_expert_def field_def spec_first_name_def spec_column_def
      split: option.splits)

lemma status_row_record: "status (row_record row) = spec_status row"
  by (simp add: row_record_def make_expert_def status_field_def spec_status_def spec_column_def
      parseInt_undefined split: option.splits)

lemma read_rows_filter:
  "read_rows rows db = db @ map row_record (filter spec_retained rows)"
proof (induction rows arbitrary: db)
  case Nil
  show ?case by simp
next
  case (Cons row rows)
  show ?case
  proof (cases "js_trim row = []")
    case True
    then show ?thesis
      using Cons.IH blank_line_not_retained by simp
  next
    case False
    have keep: "(firstName (row_record row) \<noteq> [] \<and> status (row_record row) = 0)
                  \<longleftrightarrow> spec_retained row"
      by (simp add: firstName_row_record status_row_record spec_retained_def)
    show ?thesis
      using False keep Cons.IH by (simp add: Let_def row_record_def)
  qed
qed

lemma row_record_available: "spec_retained row \<Longrightarrow> available (row_record row)"
  by (simp add: available_def firstName_row_record status_row_record spec_retained_def)

section \<open>The directory read, case by case\<close>

lemma fetch_served:
  assumes "cache_served env w"
  shows "fetchExpertDatabase env w = (expertDatabase w, emit Enter_fetchExpertDatabase w)"
  using assms by (simp add: fetchExpertDatabase_def cache_served_def Let_def)

lemma fetch_refreshed:
  assumes "\<not> cache_served env w"
    and "axios_get env (count_gets (trace w)) = Inr (JStr csv)"
  shows "fetchExpertDatabase env w =
           (read_rows (drop 1 (js_split 10 csv)) [],
            \<lparr> expertDatabase = read_rows (drop 1 (js_split 10 csv)) [],
              lastFetchTime = Date_now env,
              trace = trace w @ [Enter_fetchExpertDatabase, Axios_get csvUrl] \<rparr>)"
  using assms by (auto simp: fetchExpertDatabase_def cache_served_def Let_def emit_def)

lemma fetch_failed:
  assumes "\<not> cache_served env w"
    and "fetch_fails (axios_get env (count_gets (trace w)))"
  shows "fetchExpertDatabase env w =
           (expertDatabase w,
            w\<lparr> trace := trace w @ [Enter_fetchExpertDatabase, Axios_get csvUrl,
                Console_error (ascii ''Error fetching expert database:'')
                  (Inl (case axios_get env (count_gets (trace w)) of
                          Inl error \<Rightarrow> error
                        | Inr other \<Rightarrow> TypeError env ''response.data.split''))] \<rparr>)"
proof (cases "axios_get env (count_gets (trace w))")
  case (Inl error)
  with assms(1) show ?thesis
    by (auto simp: fetchExpertDatabase_def cache_served_def Let_def emit_def)
next
  case (Inr data)
  with assms show ?thesis
    by (cases data) (auto simp: fetchExpertDatabase_def cache_served_def Let_def emit_def)
qed

lemma fetch_cases:
  obtains (served) "cache_served env w"
  | (refreshed) csv where "\<not> cache_served env w"
      and "axios_get env (count_gets (trace w)) = Inr (JStr csv)"
  | (failed) "\<not> cache_served env w" and "fetch_fails (axios_get env (count_gets (trace w)))"
proof (cases "cache_served env w")
  case True
  then show ?thesis by (rule served)
next
  case False
  show ?thesis
  proof (cases "fetch_fails (axios_get env (count_gets (trace w)))")
    case True
    with False show ?thesis by (rule failed)
  next
    case nofail: False
    then obtain csv where "axios_get env (count_gets (trace w)) = Inr (JStr csv)"
      by (cases "axios_get env (count_gets (trace w))" rule: fetch_fails.cases) auto
    with False show ?thesis by (rule refreshed)
  qed
qed

lemma fetch_counts:
  "count_gets (trace (snd (fetchExpertDatabase env w))) \<le> count_gets (trace w) + 1"
  "count_posts (trace (snd (fetchExpertDatabase env w))) = count_posts (trace w)"
  "count_reads (trace (snd (fetchExpertDatabase env w))) = count_reads (trace w) + 1"
proof -
  show "count_gets (trace (snd (fetchExpertDatabase env w))) \<le> count_gets (trace w) + 1"
  proof (cases env w rule: fetch_cases)
    case served
    then show ?thesis by (simp add: fetch_served)
  next
    case (refreshed csv)
    then show ?thesis by (simp add: fetch_refreshed)
  next
    case failed
    then show ?thesis by (simp add: fetch_failed)
  qed
  show "count_posts (trace (snd (fetchExpertDatabase env w))) = count_posts (trace w)"
  proof (cases env w rule: fetch_cases)
    case served
    then show ?thesis by (simp add: fetch_served)
  next
    case (refreshed csv)
    then show ?thesis by (simp add: fetch_refreshed)
  next
    case failed
    then show ?thesis by (simp add: fetch_failed)
  qed
  show "count_reads (trace (snd (fetchExpertDatabase env w))) = count_reads (trace w) + 1"
  proof (cases env w rule: fetch_cases)
    case served
    then show ?thesis by (simp add: fetch_served)
  next
    case (refreshed csv)
    then show ?thesis by (simp add: fetch_refreshed)
  next
    case failed
    then show ?thesis by (simp add: fetch_failed)
  qed
qed

lemma fetch_available:
  assumes "\<forall>e \<in> set (expertDatabase w). available e"
  shows "\<forall>e \<in> set (expertDatabase (snd (fetchExpertDatabase env w))). available e"
proof (cases env w rule: fetch_cases)
  case served
  with assms show ?thesis by (simp add: fetch_served)
next
  case (refreshed csv)
  then show ?thesis
    by (simp add: fetch_refreshed read_rows_filter row_record_available)
next
  case failed
  with assms show ?thesis by (simp add: fetch_failed)
qed

section \<open>The gateway, and what a handler does to the state\<close>

lemma callClaude_effect:
  assumes "callClaude env p m w = (r, w')"
  shows "expertDatabase w' = expertDatabase w"
    and "lastFetchTime w' = lastFetchTime w"
    and "count_posts (trace w') = count_posts (trace w) + 1"
    and "count_gets (trace w') = count_gets (trace w)"
    and "count_reads (trace w') = count_reads (trace w)"
    and "(case axios_post env (count_posts (trace w)) of
            Inl error \<Rightarrow> Inl error
          | Inr data \<Rightarrow> completion_text env data) = r"
  using assms by (auto simp: callClaude_def Let_def split: sum.splits)

lemma callClaude_reply:
  assumes "axios_post env (count_posts (trace w)) = Inr data"
    and "completion_text env data = Inr reply"
  shows "callClaude env p m w =
           (Inr reply, emit (Axios_post CLAUDE_API_URL (claude_payload p m) (claude_config env)) w)"
  using assms by (simp add: callClaude_def Let_def)

lemma callClaude_throws:
  assumes "axios_post env (count_posts (trace w)) = Inl error"
  shows "callClaude env p m w =
           (Inl error,
            emit (Console_error (ascii ''Claude API error:'')
                    (Inr (if truthy (response_data error) then response_data error
                          else JStr (message error))))
              (emit (Axios_post CLAUDE_API_URL (claude_payload p m) (claude_config env)) w))"
  using assms by (simp add: callClaude_def Let_def)


lemma phase1_effect:
  assumes "phase1 env b w = (r, w')"
  shows "expertDatabase w' = expertDatabase w"
    and "count_posts (trace w') \<le> count_posts (trace w) + 1"
    and "count_gets (trace w') = count_gets (trace w)"
    and "count_reads (trace w') = count_reads (trace w)"
  using assms
  by (auto simp: phase1_def Let_def split: if_splits prod.splits sum.splits
      dest: callClaude_effect)

lemma phase3_effect:
  assumes "phase3 env b w = (r, w')"
  shows "expertDatabase w' = expertDatabase w"
    and "count_posts (trace w') \<le> count_posts (trace w) + 1"
    and "count_gets (trace w') = count_gets (trace w)"
    and "count_reads (trace w') = count_reads (trace w)"
  using assms
  by (auto simp: phase3_def Let_def split: if_splits prod.splits sum.splits
      dest: callClaude_effect)

lemma phase2_effect:
  assumes "phase2 env b w = (r, w')"
  shows "expertDatabase w' = expertDatabase w
         \<or> expertDatabase w' = expertDatabase (snd (fetchExpertDatabase env w))"
    and "count_posts (trace w') \<le> count_posts (trace w) + 1"
    and "count_gets (trace w') \<le> count_gets (trace w) + 1"
    and "count_reads (trace w') \<le> count_reads (trace w) + 1"
proof -
  have step: "\<And>experts w1. fetchExpertDatabase env w = (experts, w1) \<Longrightarrow>
      w1 = snd (fetchExpertDatabase env w)"
    by simp
  show "expertDatabase w' = expertDatabase w
         \<or> expertDatabase w' = expertDatabase (snd (fetchExpertDatabase env w))"
    using assms
    by (auto simp: phase2_def Let_def split: if_splits prod.splits sum.splits
        dest: callClaude_effect)
  show "count_posts (trace w') \<le> count_posts (trace w) + 1"
    using assms fetch_counts(2) [of env w]
    by (auto simp: phase2_def Let_def split: if_splits prod.splits sum.splits
        dest!: callClaude_effect(3) step)
  show "count_gets (trace w') \<le> count_gets (trace w) + 1"
    using assms fetch_counts(1) [of env w]
    by (auto simp: phase2_def Let_def split: if_splits prod.splits sum.splits
        dest!: callClaude_effect(4) step)
  show "count_reads (trace w') \<le> count_reads (trace w) + 1"
    using assms fetch_counts(3) [of env w]
    by (auto simp: phase2_def Let_def split: if_splits prod.splits sum.splits
        dest!: callClaude_effect(5) step)
qed

lemma reachable_available:
  "reachable w \<Longrightarrow> \<forall>e \<in> set (expertDatabase w). available e"
proof (induction rule: reachable.induct)
  case loaded
  show ?case by simp
next
  case (directory_read w env)
  from directory_read.IH show ?case by (rule fetch_available)
next
  case (served1 w env b)
  then show ?case
    using phase1_effect(1) [of env b w "fst (phase1 env b w)" "snd (phase1 env b w)"] by simp
next
  case (served2 w env b)
  then show ?case
    using phase2_effect(1) [of env b w "fst (phase2 env b w)" "snd (phase2 env b w)"]
      fetch_available [of w env]
    by auto
next
  case (served3 w env b)
  then show ?case
    using phase3_effect(1) [of env b w "fst (phase3 env b w)" "snd (phase3 env b w)"] by simp
qed

section \<open>Object literals\<close>

lemma map_of_obj_put: "map_of (obj_put k v kvs) = (map_of kvs)(k \<mapsto> v)"
  by (induction kvs) (auto simp: fun_upd_twist)

lemma map_of_fold_put:
  "map_of (fold (\<lambda>p. obj_put (fst p) (snd p)) ps obj) k =
     (case map_of (rev ps) k of Some x \<Rightarrow> Some x | None \<Rightarrow> map_of obj k)"
proof (induction ps arbitrary: obj)
  case Nil
  show ?case by simp
next
  case (Cons p ps)
  show ?case
    by (simp add: Cons.IH map_of_obj_put map_add_def split: option.splits)
qed

lemma map_of_rev_distinct: "distinct (map fst ps) \<Longrightarrow> map_of (rev ps) = map_of ps"
proof (induction ps)
  case Nil
  show ?case by simp
next
  case (Cons p ps)
  then have absent: "map_of ps (fst p) = None"
    by (simp add: map_of_eq_None_iff)
  have "map_of (rev (p # ps)) k = map_of (p # ps) k" for k
    using Cons absent by (cases p) (auto simp: map_add_def split: option.splits)
  then show ?case by (rule ext)
qed

lemma own_property_put:
  "own_property (JObj (obj_put k v kvs)) k' = (if k' = k then v else own_property (JObj kvs) k')"
  by (simp add: map_of_obj_put)

lemma own_property_spread:
  "own_property (JObj (spread parsed obj)) k =
     (case map_of (rev (own_properties parsed)) k of
        Some x \<Rightarrow> x
      | None \<Rightarrow> own_property (JObj obj) k)"
proof -
  have look: "map_of (spread parsed obj) k =
     (case map_of (rev (own_properties parsed)) k of
        Some x \<Rightarrow> Some x
      | None \<Rightarrow> map_of obj k)"
    unfolding spread_def by (rule map_of_fold_put)
  show ?thesis
    by (cases "map_of (rev (own_properties parsed)) k") (simp_all add: look)
qed

lemma decimal_digits: "set (decimal n) \<subseteq> {48..57}"
proof (induction n rule: decimal.induct)
  case (1 n)
  show ?case
  proof (cases "n < 10")
    case True
    then have "decimal n = [48 + n]" by (subst decimal.simps) simp
    with True show ?thesis by simp
  next
    case False
    then have unfold: "decimal n = decimal (n div 10) @ [48 + n mod 10]"
      by (subst decimal.simps) simp
    have "n mod 10 < 10" by simp
    then have "48 + n mod 10 \<in> {48..57}" by simp
    with False "1.IH" show ?thesis unfolding unfold by simp
  qed
qed

lemma index_names_digits:
  assumes "k \<in> fst ` set (zip (map decimal ns) vs)"
  shows "set k \<subseteq> {48..57}"
proof -
  from assms obtain v where "(k, v) \<in> set (zip (map decimal ns) vs)" by auto
  then have "k \<in> set (map decimal ns)" by (rule set_zip_leftD)
  then obtain n where "k = decimal n" by auto
  then show ?thesis using decimal_digits [of n] by simp
qed

lemma no_named_property_of_indices:
  assumes "\<not> set k \<subseteq> {48..57}"
  shows "map_of (zip (map decimal ns) vs) k = None"
proof -
  have "k \<notin> fst ` set (zip (map decimal ns) vs)"
    using assms index_names_digits [of k ns vs] by blast
  then show ?thesis by (simp add: map_of_eq_None_iff)
qed

lemma own_property_via_own_properties:
  assumes "\<not> set k \<subseteq> {48..57}"
  shows "(case map_of (own_properties parsed) k of Some x \<Rightarrow> x | None \<Rightarrow> JUndefined)
           = own_property parsed k"
proof (cases parsed)
  case (JArr xs)
  have none: "map_of (zip (map decimal [0..<length xs]) xs) k = None"
    by (rule no_named_property_of_indices [OF assms])
  show ?thesis unfolding JArr own_properties.simps none by simp
next
  case (JStr s)
  have none: "map_of (zip (map decimal [0..<length s]) (map (\<lambda>c. JStr [c]) s)) k = None"
    by (rule no_named_property_of_indices [OF assms])
  show ?thesis unfolding JStr own_properties.simps none by simp
next
  case (JObj kvs)
  then show ?thesis by (simp split: option.splits)
qed simp_all

lemma named_property_of_spread:
  assumes unique: "distinct (map fst (own_properties parsed))"
  shows "own_property (JObj (spread parsed obj)) k =
     (case map_of (own_properties parsed) k of
        Some x \<Rightarrow> x
      | None \<Rightarrow> own_property (JObj obj) k)"
  by (simp only: own_property_spread map_of_rev_distinct [OF unique])

lemma names_differ [simp]:
  "ascii ''swapLimit'' \<noteq> ascii ''swapAvailable''"
  "ascii ''swapAvailable'' \<noteq> ascii ''swapLimit''"
  "ascii ''team'' \<noteq> ascii ''swapLimit''"
  "ascii ''team'' \<noteq> ascii ''swapAvailable''"
  "ascii ''team'' \<noteq> ascii ''phase''"
  "ascii ''phase'' \<noteq> ascii ''swapLimit''"
  "ascii ''phase'' \<noteq> ascii ''swapAvailable''"
  "ascii ''phase'' \<noteq> ascii ''totalQuestions''"
  by (simp_all add: ascii_def)

lemma names_not_indices:
  "\<not> set (ascii ''team'') \<subseteq> {48..57}"
  "\<not> set (ascii ''phase'') \<subseteq> {48..57}"
  by (simp_all add: ascii_def)

lemma phase_of_spread:
  assumes "distinct (map fst kvs)" and "map_of kvs (ascii ''phase'') = Some v"
  shows "own_property (JObj (spread (JObj kvs) [(ascii ''phase'', c)])) (ascii ''phase'') = v"
proof -
  have unique: "distinct (map fst (own_properties (JObj kvs)))"
    using assms(1) by simp
  show ?thesis
    unfolding named_property_of_spread [OF unique] using assms(2) by simp
qed

section \<open>The paths through the handlers\<close>

lemma phase1_success:
  assumes "\<not> nullish b" and "truthy (own_property b (ascii ''challenge''))"
    and "axios_post env (count_posts (trace w)) = Inr data"
    and "completion_text env data = Inr reply"
    and "JSON_parse env reply = Inr parsed"
  shows "fst (phase1 env b w) = Inr (ok (spread parsed [(ascii ''phase'', JNum 1)]))"
  using assms by (simp add: phase1_def Let_def callClaude_reply)

lemma phase1_ok:
  assumes "fst (phase1 env b w) = Inr r" and "statusCode r = 200"
  shows "\<exists>data reply parsed.
           axios_post env (count_posts (trace w)) = Inr data
         \<and> completion_text env data = Inr reply
         \<and> JSON_parse env reply = Inr parsed
         \<and> body r = JObj (spread parsed [(ascii ''phase'', JNum 1)])"
  using assms
  by (auto simp: phase1_def Let_def split: if_splits prod.splits sum.splits
      dest!: callClaude_effect(6))

lemma phase2_success:
  assumes "\<not> nullish b" and "truthy (own_property b (ascii ''challenge''))"
    and "truthy (own_property b (ascii ''challengeType''))"
    and "phase2_message env (own_property b (ascii ''challengeType''))
           (own_property b (ascii ''challenge'')) = Inr m"
    and "axios_post env (count_posts (trace w)) = Inr data"
    and "completion_text env data = Inr reply"
    and "JSON_parse env reply = Inr parsed"
  shows "fst (phase2 env b w) =
           Inr (ok (obj_put (ascii ''swapLimit'') (JNum 3)
                 (obj_put (ascii ''swapAvailable'') (JBool True)
                   (spread parsed [(ascii ''phase'', JNum 2)]))))"
proof -
  obtain experts w1 where f: "fetchExpertDatabase env w = (experts, w1)"
    by (cases "fetchExpertDatabase env w")
  then have "count_posts (trace w1) = count_posts (trace w)"
    using fetch_counts(2) [of env w] by simp
  with assms(5) have "axios_post env (count_posts (trace w1)) = Inr data" by simp
  then show ?thesis
    using assms f by (simp add: phase2_def Let_def callClaude_reply)
qed

lemma phase2_ok:
  assumes "fst (phase2 env b w) = Inr r" and "statusCode r = 200"
  shows "\<exists>data reply parsed.
           axios_post env (count_posts (trace w)) = Inr data
         \<and> completion_text env data = Inr reply
         \<and> JSON_parse env reply = Inr parsed
         \<and> body r = JObj (obj_put (ascii ''swapLimit'') (JNum 3)
                       (obj_put (ascii ''swapAvailable'') (JBool True)
                         (spread parsed [(ascii ''phase'', JNum 2)])))"
proof -
  obtain experts w1 where f: "fetchExpertDatabase env w = (experts, w1)"
    by (cases "fetchExpertDatabase env w")
  then have same: "count_posts (trace w1) = count_posts (trace w)"
    using fetch_counts(2) [of env w] by simp
  show ?thesis
    using assms f same
    by (auto simp: phase2_def Let_def split: if_splits prod.splits sum.splits
        dest!: callClaude_effect(6))
qed

lemma phase3_success:
  assumes "\<not> nullish b" and "truthy (own_property b (ascii ''challenge''))"
    and "truthy (own_property b (ascii ''team''))"
    and "team_names env (own_property b (ascii ''team'')) = Inr names"
    and "phase3_message env (own_property b (ascii ''challenge'')) = Inr m"
    and "axios_post env (count_posts (trace w)) = Inr data"
    and "completion_text env data = Inr reply"
    and "JSON_parse env reply = Inr parsed"
  shows "fst (phase3 env b w) =
           Inr (ok (obj_put (ascii ''totalQuestions'') (JNum 5)
                 (spread parsed [(ascii ''phase'', JNum 3)])))"
  using assms by (simp add: phase3_def Let_def callClaude_reply)

lemma phase3_ok:
  assumes "fst (phase3 env b w) = Inr r" and "statusCode r = 200"
  shows "\<exists>data reply parsed.
           axios_post env (count_posts (trace w)) = Inr data
         \<and> completion_text env data = Inr reply
         \<and> JSON_parse env reply = Inr parsed
         \<and> body r = JObj (obj_put (ascii ''totalQuestions'') (JNum 5)
                       (spread parsed [(ascii ''phase'', JNum 3)]))"
  using assms
  by (auto simp: phase3_def Let_def split: if_splits prod.splits sum.splits
      dest!: callClaude_effect(6))

lemma phase2_trailing_fields:
  assumes "fst (phase2 env b w) = Inr r" and "statusCode r = 200"
  shows "own_property (body r) (ascii ''swapAvailable'') = JBool True"
    and "own_property (body r) (ascii ''swapLimit'') = JNum 3"
proof -
  from phase2_ok [OF assms] obtain parsed where
    body: "body r = JObj (obj_put (ascii ''swapLimit'') (JNum 3)
                       (obj_put (ascii ''swapAvailable'') (JBool True)
                         (spread parsed [(ascii ''phase'', JNum 2)])))"
    by blast
  show "own_property (body r) (ascii ''swapAvailable'') = JBool True"
    unfolding body by (simp only: own_property_put names_differ if_True if_False simp_thms)
  show "own_property (body r) (ascii ''swapLimit'') = JNum 3"
    unfolding body by (simp only: own_property_put if_True simp_thms)
qed

lemma phase3_trailing_field:
  assumes "fst (phase3 env b w) = Inr r" and "statusCode r = 200"
  shows "own_property (body r) (ascii ''totalQuestions'') = JNum 5"
proof -
  from phase3_ok [OF assms] obtain parsed where
    body: "body r = JObj (obj_put (ascii ''totalQuestions'') (JNum 5)
                       (spread parsed [(ascii ''phase'', JNum 3)]))"
    by blast
  show ?thesis
    unfolding body by (simp only: own_property_put if_True simp_thms)
qed

lemma phase2_team_field:
  assumes "fst (phase2 env b w) = Inr r" and "statusCode r = 200"
  shows "\<exists>data reply parsed.
          axios_post env (count_posts (trace w)) = Inr data
        \<and> completion_text env data = Inr reply
        \<and> JSON_parse env reply = Inr parsed
        \<and> (distinct (map fst (own_properties parsed)) \<longrightarrow>
             own_property (body r) (ascii ''team'') = own_property parsed (ascii ''team''))"
proof -
  from phase2_ok [OF assms] obtain data reply parsed where
    post: "axios_post env (count_posts (trace w)) = Inr data"
    and reply: "completion_text env data = Inr reply"
    and parsed: "JSON_parse env reply = Inr parsed"
    and body: "body r = JObj (obj_put (ascii ''swapLimit'') (JNum 3)
                       (obj_put (ascii ''swapAvailable'') (JBool True)
                         (spread parsed [(ascii ''phase'', JNum 2)])))"
    by blast
  have team: "own_property (body r) (ascii ''team'') = own_property parsed (ascii ''team'')"
    if unique: "distinct (map fst (own_properties parsed))"
  proof -
    have base: "own_property (JObj [(ascii ''phase'', JNum 2)]) (ascii ''team'') = JUndefined"
      by simp
    have "own_property (body r) (ascii ''team'')
            = own_property (JObj (spread parsed [(ascii ''phase'', JNum 2)])) (ascii ''team'')"
      unfolding body by (simp only: own_property_put names_differ if_False simp_thms)
    also have "\<dots> = (case map_of (own_properties parsed) (ascii ''team'') of
                        Some x \<Rightarrow> x | None \<Rightarrow> JUndefined)"
      by (simp only: named_property_of_spread [OF unique] base)
    also have "\<dots> = own_property parsed (ascii ''team'')"
      by (rule own_property_via_own_properties [OF names_not_indices(1)])
    finally show ?thesis .
  qed
  from post reply parsed team show ?thesis by blast
qed




section \<open>The examples, evaluated\<close>

lemma sample_rows:
  "map row_record (filter spec_retained (drop (Suc 0) (js_split 10 sample_csv))) = [jane, ann]"
  by (simp add: sample_csv_def ascii_def row_record_def spec_retained_def spec_first_name_def
      spec_status_def spec_column_def index_def jane_def ann_def make_expert_def field_def
      status_field_def js_trim_def js_whitespace_def parseInt_def radix_digit_def digit_of_def
      digit_value_def)

lemma world_with_two_experts_eq:
  "world_with_two_experts =
     \<lparr> expertDatabase = [jane, ann], lastFetchTime = 1000,
       trace = [Enter_fetchExpertDatabase, Axios_get csvUrl] \<rparr>"
  unfolding world_with_two_experts_def
  by (simp add: fetch_refreshed cache_served_def read_rows_filter sample_rows)

lemma header_only_rows:
  "read_rows (drop (Suc 0) (js_split 10 (ascii ''Last,First''))) [] = []"
  by (simp add: ascii_def)

lemma world_after_empty_refresh_eq:
  "world_after_empty_refresh =
     \<lparr> expertDatabase = [], lastFetchTime = 1000,
       trace = [Enter_fetchExpertDatabase, Axios_get csvUrl] \<rparr>"
  unfolding world_after_empty_refresh_def
  by (simp add: fetch_refreshed cache_served_def header_only_rows)

lemma sample_parse:
  "sample_JSON_parse (JStr output_empty_team) = Inr (JObj [(ascii ''team'', JArr [])])"
  "sample_JSON_parse (JStr output_overriding) =
     Inr (JObj [(ascii ''phase'', JNum 7), (ascii ''swapLimit'', JNum 0),
                (ascii ''swapAvailable'', JBool False), (ascii ''totalQuestions'', JNum 99)])"
  "sample_JSON_parse (JStr output_question6) =
     Inr (JObj [(ascii ''questionNumber'', JNum 6), (ascii ''totalQuestions'', JNum 99)])"
  by (simp_all add: sample_JSON_parse_def JSON_parse_table_def output_empty_team_def
      output_overriding_def output_question6_def ascii_def)

lemma sample_completion:
  "claude_reply t = Inr data \<Longrightarrow> completion_text env data = Inr (JStr t)"
  by (auto simp: claude_reply_def completion_text_def js_prop_def js_elem0_def ascii_def)

lemma sample_reply:
  "completion_text env (JObj [(ascii ''content'',
      JArr [JObj [(ascii ''type'', JStr (ascii ''text'')), (ascii ''text'', JStr t)]])])
   = Inr (JStr t)"
  by (rule sample_completion) (simp add: claude_reply_def)

lemma sample_post:
  "axios_post (sample_env now g (claude_reply t)) n =
     Inr (JObj [(ascii ''content'',
      JArr [JObj [(ascii ''type'', JStr (ascii ''text'')), (ascii ''text'', JStr t)]])])"
  by (simp add: claude_reply_def)

lemma sample_requests:
  "\<not> nullish request1" "truthy (own_property request1 (ascii ''challenge''))"
  "\<not> nullish request2" "truthy (own_property request2 (ascii ''challenge''))"
  "truthy (own_property request2 (ascii ''challengeType''))"
  "\<not> nullish request3" "truthy (own_property request3 (ascii ''challenge''))"
  "truthy (own_property request3 (ascii ''team''))"
  by (simp_all add: request1_def request2_def request3_def ascii_def)

lemma sample_messages:
  "phase2_message env (own_property request2 (ascii ''challengeType''))
     (own_property request2 (ascii ''challenge''))
   = Inr (ascii ''Challenge type: Decision'' @ [10] @ ascii ''Challenge: Should I move abroad?'')"
  "phase3_message env (own_property request3 (ascii ''challenge''))
   = Inr (ascii ''Challenge: Should I move abroad?'')"
  "team_names env (own_property request3 (ascii ''team'')) = Inr (ascii ''Ada, Kurt'')"
  by (simp_all add: phase2_message_def phase3_message_def team_names_def js_prop_def
      request2_def request3_def ascii_def)

lemma overriding_output_phase1:
  "fst (phase1 (sample_env 1000 network_down (claude_reply output_overriding))
          request1 initial_world)
   = Inr (ok [(ascii ''phase'', JNum 7), (ascii ''swapLimit'', JNum 0),
              (ascii ''swapAvailable'', JBool False), (ascii ''totalQuestions'', JNum 99)])"
proof -
  have "fst (phase1 (sample_env 1000 network_down (claude_reply output_overriding))
          request1 initial_world)
        = Inr (ok (spread (JObj [(ascii ''phase'', JNum 7), (ascii ''swapLimit'', JNum 0),
                (ascii ''swapAvailable'', JBool False), (ascii ''totalQuestions'', JNum 99)])
                   [(ascii ''phase'', JNum 1)]))"
    by (rule phase1_success [OF sample_requests(1,2) sample_post sample_reply])
       (simp add: sample_parse)
  then show ?thesis by (simp add: spread_def ascii_def)
qed

lemma overriding_output_phase2:
  "fst (phase2 (sample_env 1000 network_down (claude_reply output_overriding))
          request2 initial_world)
   = Inr (ok [(ascii ''phase'', JNum 7), (ascii ''swapLimit'', JNum 3),
              (ascii ''swapAvailable'', JBool True), (ascii ''totalQuestions'', JNum 99)])"
proof -
  have "fst (phase2 (sample_env 1000 network_down (claude_reply output_overriding))
          request2 initial_world)
        = Inr (ok (obj_put (ascii ''swapLimit'') (JNum 3)
                 (obj_put (ascii ''swapAvailable'') (JBool True)
                   (spread (JObj [(ascii ''phase'', JNum 7), (ascii ''swapLimit'', JNum 0),
                (ascii ''swapAvailable'', JBool False), (ascii ''totalQuestions'', JNum 99)])
                   [(ascii ''phase'', JNum 2)]))))"
    by (rule phase2_success [OF sample_requests(3,4,5) sample_messages(1) sample_post sample_reply])
       (simp add: sample_parse)
  then show ?thesis by (simp add: spread_def ascii_def)
qed

lemma overriding_output_phase3:
  "fst (phase3 (sample_env 1000 network_down (claude_reply output_overriding))
          request3 initial_world)
   = Inr (ok [(ascii ''phase'', JNum 7), (ascii ''swapLimit'', JNum 0),
              (ascii ''swapAvailable'', JBool False), (ascii ''totalQuestions'', JNum 5)])"
proof -
  have "fst (phase3 (sample_env 1000 network_down (claude_reply output_overriding))
          request3 initial_world)
        = Inr (ok (obj_put (ascii ''totalQuestions'') (JNum 5)
                   (spread (JObj [(ascii ''phase'', JNum 7), (ascii ''swapLimit'', JNum 0),
                (ascii ''swapAvailable'', JBool False), (ascii ''totalQuestions'', JNum 99)])
                   [(ascii ''phase'', JNum 3)])))"
    by (rule phase3_success [OF sample_requests(6,7,8) sample_messages(3,2) sample_post sample_reply])
       (simp add: sample_parse)
  then show ?thesis by (simp add: spread_def ascii_def)
qed

lemma question6_output_phase3:
  "fst (phase3 (sample_env 1000 network_down (claude_reply output_question6))
          request3 initial_world)
   = Inr (ok [(ascii ''phase'', JNum 3), (ascii ''questionNumber'', JNum 6),
              (ascii ''totalQuestions'', JNum 5)])"
proof -
  have "fst (phase3 (sample_env 1000 network_down (claude_reply output_question6))
          request3 initial_world)
        = Inr (ok (obj_put (ascii ''totalQuestions'') (JNum 5)
                   (spread (JObj [(ascii ''questionNumber'', JNum 6),
                                  (ascii ''totalQuestions'', JNum 99)])
                   [(ascii ''phase'', JNum 3)])))"
    by (rule phase3_success [OF sample_requests(6,7,8) sample_messages(3,2) sample_post sample_reply])
       (simp add: sample_parse)
  then show ?thesis by (simp add: spread_def ascii_def)
qed

lemma offline_read:
  "fetchExpertDatabase offline_env initial_world
      = ([], \<lparr> expertDatabase = [], lastFetchTime = 0,
                trace = [Enter_fetchExpertDatabase, Axios_get csvUrl,
                    Console_error (ascii ''Error fetching expert database:'')
                      (Inl (JsError (ascii ''Network Error'') JUndefined))] \<rparr>)"
proof -
  have stale: "\<not> cache_served offline_env initial_world"
    by (simp add: cache_served_def)
  have fails: "fetch_fails (axios_get offline_env (count_gets (trace initial_world)))"
    by (simp add: offline_env_fields)
  show ?thesis
    unfolding fetch_failed [OF stale fails]
    by (simp add: offline_env_fields initial_world_def)
qed

lemma offline_phase2:
  "phase2 offline_env request2 initial_world
      = (Inr \<lparr> statusCode = 500,
                body = JObj [(ascii ''error'', JStr (ascii ''Network Error''))] \<rparr>,
         \<lparr> expertDatabase = [], lastFetchTime = 0,
           trace = [Enter_fetchExpertDatabase, Axios_get csvUrl,
                    Console_error (ascii ''Error fetching expert database:'')
                      (Inl (JsError (ascii ''Network Error'') JUndefined)),
                    Axios_post CLAUDE_API_URL
                      (claude_payload (phase2_prompt [])
                         (JStr (ascii ''Challenge type: Decision'' @ [10]
                                @ ascii ''Challenge: Should I move abroad?'')))
                      (claude_config offline_env),
                    Console_error (ascii ''Claude API error:'')
                      (Inr (JStr (ascii ''Network Error'')))] \<rparr>)"
  using sample_requests(3,4,5)
  by (simp add: phase2_def offline_read sample_messages(1) callClaude_throws
      offline_env_fields server_error_def emit_def Let_def)



section \<open>The directory cache: claims C1, C2 and C4\<close>

text \<open>
  Claim C1. When the directory is fetched and the reply is a text, the directory that is
  returned and stored is exactly the sequence of records of the rows after the header, in
  order, that the retention rule keeps: first name (column 1) non-empty after trimming and
  status (column 7) parsing to 0, an absent or non-numeric status counting as 0. Each
  iteration of the loop pushes the record of its row if and only if the rule keeps the row.
  Hence in every state the process can reach, every record of the directory has status 0.
\<close>

theorem directory_is_the_retained_rows:
  "(\<not> cache_served env w \<and> axios_get env (count_gets (trace w)) = Inr (JStr csv) \<longrightarrow>
      fst (fetchExpertDatabase env w)
        = map row_record (filter spec_retained (drop 1 (js_split 10 csv)))
      \<and> expertDatabase (snd (fetchExpertDatabase env w))
        = map row_record (filter spec_retained (drop 1 (js_split 10 csv))))
   \<and> read_rows (row # rows) db
       = read_rows rows (if spec_retained row then db @ [row_record row] else db)
   \<and> (reachable w' \<longrightarrow> (\<forall>e \<in> set (expertDatabase w'). status e = 0))"
proof (intro conjI impI)
  assume a: "\<not> cache_served env w \<and> axios_get env (count_gets (trace w)) = Inr (JStr csv)"
  then show "fst (fetchExpertDatabase env w)
        = map row_record (filter spec_retained (drop 1 (js_split 10 csv)))"
    by (simp add: fetch_refreshed read_rows_filter)
  from a show "expertDatabase (snd (fetchExpertDatabase env w))
        = map row_record (filter spec_retained (drop 1 (js_split 10 csv)))"
    by (simp add: fetch_refreshed read_rows_filter)
next
  show "read_rows (row # rows) db
       = read_rows rows (if spec_retained row then db @ [row_record row] else db)"
    by (simp add: read_rows_filter)
next
  assume "reachable w'"
  then show "\<forall>e \<in> set (expertDatabase w'). status e = 0"
    using reachable_available by (auto simp: available_def)
qed

text \<open>
  The sample sheet: the header is skipped; Jane's row is kept; Rick's has status 1; a blank
  line is skipped; Ann's row has no status column, which counts as 0; Moe's has no first
  name.
\<close>

theorem directory_is_the_retained_rows_witness:
  "fst (fetchExpertDatabase (sample_env 1000 (Inr (JStr sample_csv)) network_down) initial_world)
     = [jane, ann]
   \<and> reachable world_with_two_experts
   \<and> map status (expertDatabase world_with_two_experts) = [0, 0]"
proof -
  have stale: "\<not> cache_served (sample_env 1000 (Inr (JStr sample_csv)) network_down) initial_world"
    by (simp add: cache_served_def)
  have got: "axios_get (sample_env 1000 (Inr (JStr sample_csv)) network_down)
               (count_gets (trace initial_world)) = Inr (JStr sample_csv)"
    by simp
  have reach: "reachable world_with_two_experts"
    unfolding world_with_two_experts_def by (intro reachable.intros)
  show ?thesis
    using directory_is_the_retained_rows
      [where env = "sample_env 1000 (Inr (JStr sample_csv)) network_down"
         and w = initial_world and csv = sample_csv and w' = world_with_two_experts]
      stale got reach sample_rows
    by (simp add: world_with_two_experts_eq)
qed

text \<open>
  Claim C2, as amended. If the cached directory is non-empty and its age is below the
  window of five minutes, the read returns the cached sequence, sends no GET, and leaves the
  directory and the time stamp as they were (the trace gains only the ghost marker of the
  invocation). An empty snapshot is not covered by the guard of line 24.
\<close>

theorem fresh_nonempty_cache_is_served:
  assumes "expertDatabase w \<noteq> []"
    and "Date_now env - lastFetchTime w < CACHE_DURATION"
  shows "fst (fetchExpertDatabase env w) = expertDatabase w
    \<and> expertDatabase (snd (fetchExpertDatabase env w)) = expertDatabase w
    \<and> lastFetchTime (snd (fetchExpertDatabase env w)) = lastFetchTime w
    \<and> trace (snd (fetchExpertDatabase env w)) = trace w @ [Enter_fetchExpertDatabase]
    \<and> count_gets (trace (snd (fetchExpertDatabase env w))) = count_gets (trace w)"
proof -
  have "cache_served env w"
    using assms by (simp add: cache_served_def)
  then show ?thesis by (simp add: fetch_served)
qed

text \<open>
  One millisecond before the window closes, the two experts are served from the cache.
\<close>

theorem fresh_nonempty_cache_is_served_witness:
  "expertDatabase world_with_two_experts \<noteq> []
   \<and> Date_now (sample_env 300999 network_down network_down)
        - lastFetchTime world_with_two_experts < CACHE_DURATION
   \<and> fst (fetchExpertDatabase (sample_env 300999 network_down network_down)
             world_with_two_experts) = [jane, ann]
   \<and> count_gets (trace (snd (fetchExpertDatabase (sample_env 300999 network_down network_down)
             world_with_two_experts))) = 1"
proof -
  have h1: "expertDatabase world_with_two_experts \<noteq> []"
    by (simp add: world_with_two_experts_eq)
  have h2: "Date_now (sample_env 300999 network_down network_down)
        - lastFetchTime world_with_two_experts < CACHE_DURATION"
    by (simp add: world_with_two_experts_eq CACHE_DURATION_def)
  show ?thesis
    using fresh_nonempty_cache_is_served [OF h1 h2] h1 h2
    by (simp add: world_with_two_experts_eq)
qed

text \<open>
  Claim C2 as stated fails on an empty snapshot. A refresh at time 1000 of a sheet that
  holds only its header succeeds and leaves an empty directory; one millisecond later, well
  inside the window, a read sends a second GET and returns another directory.
\<close>

theorem fresh_empty_snapshot_is_fetched_again:
  "reachable world_after_empty_refresh
   \<and> lastFetchTime world_after_empty_refresh = 1000
   \<and> Date_now (sample_env 1001 (Inr (JStr sample_csv)) network_down)
        - lastFetchTime world_after_empty_refresh < CACHE_DURATION
   \<and> count_gets (trace world_after_empty_refresh) = 1
   \<and> count_gets (trace (snd (fetchExpertDatabase
          (sample_env 1001 (Inr (JStr sample_csv)) network_down) world_after_empty_refresh))) = 2
   \<and> expertDatabase world_after_empty_refresh = []
   \<and> fst (fetchExpertDatabase
          (sample_env 1001 (Inr (JStr sample_csv)) network_down) world_after_empty_refresh)
        = [jane, ann]
   \<and> lastFetchTime (snd (fetchExpertDatabase
          (sample_env 1001 (Inr (JStr sample_csv)) network_down) world_after_empty_refresh))
        = 1001"
proof -
  have reach: "reachable world_after_empty_refresh"
    unfolding world_after_empty_refresh_def by (intro reachable.intros)
  have stale: "\<not> cache_served (sample_env 1001 (Inr (JStr sample_csv)) network_down)
                  world_after_empty_refresh"
    by (simp add: cache_served_def world_after_empty_refresh_eq)
  have rest: "lastFetchTime world_after_empty_refresh = 1000
   \<and> Date_now (sample_env 1001 (Inr (JStr sample_csv)) network_down)
        - lastFetchTime world_after_empty_refresh < CACHE_DURATION
   \<and> count_gets (trace world_after_empty_refresh) = 1
   \<and> count_gets (trace (snd (fetchExpertDatabase
          (sample_env 1001 (Inr (JStr sample_csv)) network_down) world_after_empty_refresh))) = 2
   \<and> expertDatabase world_after_empty_refresh = []
   \<and> fst (fetchExpertDatabase
          (sample_env 1001 (Inr (JStr sample_csv)) network_down) world_after_empty_refresh)
        = [jane, ann]
   \<and> lastFetchTime (snd (fetchExpertDatabase
          (sample_env 1001 (Inr (JStr sample_csv)) network_down) world_after_empty_refresh))
        = 1001"
    by (simp add: fetch_refreshed [OF stale] read_rows_filter sample_rows)
       (simp add: world_after_empty_refresh_eq CACHE_DURATION_def)
  from reach rest show ?thesis by (rule conjI)
qed

text \<open>
  Claim C4. Whatever the state, if the GET of a directory read throws or its reply is not a
  text, the read returns the previous directory, and the directory and the time stamp are
  unchanged; the read itself returns normally (its result has no error component, the
  \<^verbatim>\<open>catch\<close> of line 64 handling every exception). Its caller is not failed either: a
  valid phase 2 request whose model call succeeds is answered with a success.
\<close>

theorem failed_fetch_keeps_the_cache:
  "(fetch_fails (axios_get env (count_gets (trace w))) \<longrightarrow>
      fst (fetchExpertDatabase env w) = expertDatabase w
    \<and> expertDatabase (snd (fetchExpertDatabase env w)) = expertDatabase w
    \<and> lastFetchTime (snd (fetchExpertDatabase env w)) = lastFetchTime w)
   \<and> (fetch_fails (axios_get env (count_gets (trace w)))
      \<and> \<not> nullish b
      \<and> truthy (own_property b (ascii ''challenge''))
      \<and> truthy (own_property b (ascii ''challengeType''))
      \<and> phase2_message env (own_property b (ascii ''challengeType''))
           (own_property b (ascii ''challenge'')) = Inr m
      \<and> axios_post env (count_posts (trace w)) = Inr data
      \<and> completion_text env data = Inr reply
      \<and> JSON_parse env reply = Inr parsed \<longrightarrow>
        (\<exists>r. fst (phase2 env b w) = Inr r \<and> statusCode r = 200))"
proof (intro conjI impI)
  assume fails: "fetch_fails (axios_get env (count_gets (trace w)))"
  show "fst (fetchExpertDatabase env w) = expertDatabase w"
    using fails by (cases "cache_served env w") (simp_all add: fetch_served fetch_failed)
  show "expertDatabase (snd (fetchExpertDatabase env w)) = expertDatabase w"
    using fails by (cases "cache_served env w") (simp_all add: fetch_served fetch_failed)
  show "lastFetchTime (snd (fetchExpertDatabase env w)) = lastFetchTime w"
    using fails by (cases "cache_served env w") (simp_all add: fetch_served fetch_failed)
next
  assume "fetch_fails (axios_get env (count_gets (trace w)))
      \<and> \<not> nullish b
      \<and> truthy (own_property b (ascii ''challenge''))
      \<and> truthy (own_property b (ascii ''challengeType''))
      \<and> phase2_message env (own_property b (ascii ''challengeType''))
           (own_property b (ascii ''challenge'')) = Inr m
      \<and> axios_post env (count_posts (trace w)) = Inr data
      \<and> completion_text env data = Inr reply
      \<and> JSON_parse env reply = Inr parsed"
  then have "fst (phase2 env b w) =
           Inr (ok (obj_put (ascii ''swapLimit'') (JNum 3)
                 (obj_put (ascii ''swapAvailable'') (JBool True)
                   (spread parsed [(ascii ''phase'', JNum 2)]))))"
    by (elim conjE) (rule phase2_success, assumption+)
  then show "\<exists>r. fst (phase2 env b w) = Inr r \<and> statusCode r = 200"
    by simp
qed

text \<open>
  The cache holds two experts and has just gone stale; the sheet cannot be reached, the
  model can.
\<close>

theorem failed_fetch_keeps_the_cache_witness:
  "fetch_fails (axios_get (sample_env 301000 network_down (claude_reply output_empty_team))
                  (count_gets (trace world_with_two_experts)))
   \<and> \<not> cache_served (sample_env 301000 network_down (claude_reply output_empty_team))
         world_with_two_experts
   \<and> fst (fetchExpertDatabase (sample_env 301000 network_down (claude_reply output_empty_team))
             world_with_two_experts) = [jane, ann]
   \<and> lastFetchTime (snd (fetchExpertDatabase
             (sample_env 301000 network_down (claude_reply output_empty_team))
             world_with_two_experts)) = 1000
   \<and> (case fst (phase2 (sample_env 301000 network_down (claude_reply output_empty_team))
                   request2 world_with_two_experts) of
         Inl error \<Rightarrow> False
       | Inr r \<Rightarrow> statusCode r = 200)"
proof -
  have fails: "fetch_fails (axios_get (sample_env 301000 network_down
                  (claude_reply output_empty_team)) (count_gets (trace world_with_two_experts)))"
    by (simp add: network_down_def)
  show ?thesis
    using failed_fetch_keeps_the_cache
      [where env = "sample_env 301000 network_down (claude_reply output_empty_team)"
         and w = world_with_two_experts and b = request2
         and m = "ascii ''Challenge type: Decision'' @ [10]
                    @ ascii ''Challenge: Should I move abroad?''"
         and data = "JObj [(ascii ''content'',
                 JArr [JObj [(ascii ''type'', JStr (ascii ''text'')),
                             (ascii ''text'', JStr output_empty_team)]])]"
         and reply = "JStr output_empty_team"
         and parsed = "JObj [(ascii ''team'', JArr [])]"]
      fails sample_requests(3,4,5) sample_messages(1) sample_post sample_reply sample_parse(1)
    by (auto simp: world_with_two_experts_eq cache_served_def CACHE_DURATION_def
        split: sum.splits)
qed

section \<open>What a success response holds: claims C3, C5 and C9\<close>

text \<open>
  Claim C3, as amended. Every successful phase 2 response carries \<^verbatim>\<open>swapAvailable: true\<close>
  and \<^verbatim>\<open>swapLimit: 3\<close> whatever the model's output was, and its \<^verbatim>\<open>team\<close> field is the
  one of the parsed output (of an object, one property per name), copied without any check
  of its length. Conversely, whatever value the output parses to, a valid request is
  answered by such a response.
\<close>

theorem phase2_success_has_the_static_fields:
  "(fst (phase2 env b w) = Inr r \<and> statusCode r = 200 \<longrightarrow>
      own_property (body r) (ascii ''swapAvailable'') = JBool True
    \<and> own_property (body r) (ascii ''swapLimit'') = JNum 3
    \<and> (\<exists>data reply parsed.
          axios_post env (count_posts (trace w)) = Inr data
        \<and> completion_text env data = Inr reply
        \<and> JSON_parse env reply = Inr parsed
        \<and> (distinct (map fst (own_properties parsed)) \<longrightarrow>
             own_property (body r) (ascii ''team'') = own_property parsed (ascii ''team''))))
   \<and> (\<not> nullish b
      \<and> truthy (own_property b (ascii ''challenge''))
      \<and> truthy (own_property b (ascii ''challengeType''))
      \<and> phase2_message env (own_property b (ascii ''challengeType''))
           (own_property b (ascii ''challenge'')) = Inr m
      \<and> axios_post env (count_posts (trace w)) = Inr data'
      \<and> completion_text env data' = Inr reply'
      \<and> JSON_parse env reply' = Inr parsed' \<longrightarrow>
        (\<exists>r'. fst (phase2 env b w) = Inr r' \<and> statusCode r' = 200
            \<and> own_property (body r') (ascii ''swapAvailable'') = JBool True
            \<and> own_property (body r') (ascii ''swapLimit'') = JNum 3))"
proof (intro conjI impI)
  assume "fst (phase2 env b w) = Inr r \<and> statusCode r = 200"
  then have ok: "fst (phase2 env b w) = Inr r" "statusCode r = 200"
    by simp_all
  show "own_property (body r) (ascii ''swapAvailable'') = JBool True"
    using ok by (rule phase2_trailing_fields(1))
  show "own_property (body r) (ascii ''swapLimit'') = JNum 3"
    using ok by (rule phase2_trailing_fields(2))
  show "\<exists>data reply parsed.
          axios_post env (count_posts (trace w)) = Inr data
        \<and> completion_text env data = Inr reply
        \<and> JSON_parse env reply = Inr parsed
        \<and> (distinct (map fst (own_properties parsed)) \<longrightarrow>
             own_property (body r) (ascii ''team'') = own_property parsed (ascii ''team''))"
    using ok by (rule phase2_team_field)
next
  let ?r = "ok (obj_put (ascii ''swapLimit'') (JNum 3)
                 (obj_put (ascii ''swapAvailable'') (JBool True)
                   (spread parsed' [(ascii ''phase'', JNum 2)])))"
  assume "\<not> nullish b
      \<and> truthy (own_property b (ascii ''challenge''))
      \<and> truthy (own_property b (ascii ''challengeType''))
      \<and> phase2_message env (own_property b (ascii ''challengeType''))
           (own_property b (ascii ''challenge'')) = Inr m
      \<and> axios_post env (count_posts (trace w)) = Inr data'
      \<and> completion_text env data' = Inr reply'
      \<and> JSON_parse env reply' = Inr parsed'"
  then have run: "fst (phase2 env b w) = Inr ?r"
    by (elim conjE) (rule phase2_success, assumption+)
  have code: "statusCode ?r = 200" by simp
  from run code phase2_trailing_fields [OF run code]
  show "\<exists>r'. fst (phase2 env b w) = Inr r' \<and> statusCode r' = 200
            \<and> own_property (body r') (ascii ''swapAvailable'') = JBool True
            \<and> own_property (body r') (ascii ''swapLimit'') = JNum 3"
    by blast
qed

text \<open>
  The model's output tries to set both static fields; the response keeps the server's.
\<close>

theorem phase2_success_has_the_static_fields_witness:
  "fst (phase2 (sample_env 1000 network_down (claude_reply output_overriding))
          request2 initial_world)
   = Inr (ok [(ascii ''phase'', JNum 7), (ascii ''swapLimit'', JNum 3),
              (ascii ''swapAvailable'', JBool True), (ascii ''totalQuestions'', JNum 99)])
   \<and> statusCode (ok [(ascii ''phase'', JNum 7), (ascii ''swapLimit'', JNum 3),
              (ascii ''swapAvailable'', JBool True), (ascii ''totalQuestions'', JNum 99)]) = 200
   \<and> own_property (body (ok [(ascii ''phase'', JNum 7), (ascii ''swapLimit'', JNum 3),
              (ascii ''swapAvailable'', JBool True), (ascii ''totalQuestions'', JNum 99)]))
        (ascii ''swapAvailable'') = JBool True
   \<and> own_property (body (ok [(ascii ''phase'', JNum 7), (ascii ''swapLimit'', JNum 3),
              (ascii ''swapAvailable'', JBool True), (ascii ''totalQuestions'', JNum 99)]))
        (ascii ''swapLimit'') = JNum 3
   \<and> JSON_parse (sample_env 1000 network_down (claude_reply output_overriding))
        (JStr output_overriding)
      = Inr (JObj [(ascii ''phase'', JNum 7), (ascii ''swapLimit'', JNum 0),
                   (ascii ''swapAvailable'', JBool False), (ascii ''totalQuestions'', JNum 99)])"
proof -
  have code: "statusCode (ok [(ascii ''phase'', JNum 7), (ascii ''swapLimit'', JNum 3),
              (ascii ''swapAvailable'', JBool True), (ascii ''totalQuestions'', JNum 99)]) = 200"
    by simp
  have parsed: "JSON_parse (sample_env 1000 network_down (claude_reply output_overriding))
        (JStr output_overriding)
      = Inr (JObj [(ascii ''phase'', JNum 7), (ascii ''swapLimit'', JNum 0),
                   (ascii ''swapAvailable'', JBool False), (ascii ''totalQuestions'', JNum 99)])"
    by (simp add: sample_parse)
  show ?thesis
    using phase2_success_has_the_static_fields
      [where env = "sample_env 1000 network_down (claude_reply output_overriding)"
         and b = request2 and w = initial_world
         and r = "ok [(ascii ''phase'', JNum 7), (ascii ''swapLimit'', JNum 3),
              (ascii ''swapAvailable'', JBool True), (ascii ''totalQuestions'', JNum 99)]"
         and m = "ascii ''Challenge type: Decision'' @ [10]
                    @ ascii ''Challenge: Should I move abroad?''"
         and data' = "JObj [(ascii ''content'',
                 JArr [JObj [(ascii ''type'', JStr (ascii ''text'')),
                             (ascii ''text'', JStr output_overriding)]])]"
         and reply' = "JStr output_overriding"
         and parsed' = "JObj [(ascii ''phase'', JNum 7), (ascii ''swapLimit'', JNum 0),
                   (ascii ''swapAvailable'', JBool False), (ascii ''totalQuestions'', JNum 99)]"]
      overriding_output_phase2 code parsed sample_requests(3,4,5) sample_messages(1)
      sample_post sample_reply
    by simp
qed

text \<open>
  Claim C3 as stated fails: the handler does not count the entries of \<^verbatim>\<open>team\<close>. On the
  output \<^verbatim>\<open>{"team":[]}\<close> the response is a success with a team of no entry.
\<close>

theorem phase2_passes_on_an_empty_team:
  "(case fst (phase2 (sample_env 1000 network_down (claude_reply output_empty_team))
                request2 initial_world) of
      Inl error \<Rightarrow> False
    | Inr r \<Rightarrow> statusCode r = 200 \<and> team_entries r = Some 0)"
proof -
  have "fst (phase2 (sample_env 1000 network_down (claude_reply output_empty_team))
                request2 initial_world)
        = Inr (ok (obj_put (ascii ''swapLimit'') (JNum 3)
                 (obj_put (ascii ''swapAvailable'') (JBool True)
                   (spread (JObj [(ascii ''team'', JArr [])]) [(ascii ''phase'', JNum 2)]))))"
    by (rule phase2_success [where data = "JObj [(ascii ''content'',
                 JArr [JObj [(ascii ''type'', JStr (ascii ''text'')),
                             (ascii ''text'', JStr output_empty_team)]])]"
          and reply = "JStr output_empty_team"])
       (simp_all add: sample_requests sample_messages sample_parse sample_completion
          claude_reply_def)
  then show ?thesis
    by (simp add: team_entries_def spread_def ascii_def)
qed

text \<open>
  Claim C5. Every successful phase 3 response carries \<^verbatim>\<open>totalQuestions: 5\<close>, whatever the
  parsed output of the model holds (a \<^verbatim>\<open>questionNumber\<close>, a \<^verbatim>\<open>totalQuestions\<close>).
  Conversely, whatever value the output parses to, a valid request is answered by such a
  response.
\<close>

theorem phase3_success_has_five_total_questions:
  "(fst (phase3 env b w) = Inr r \<and> statusCode r = 200 \<longrightarrow>
      own_property (body r) (ascii ''totalQuestions'') = JNum 5)
   \<and> (\<not> nullish b
      \<and> truthy (own_property b (ascii ''challenge''))
      \<and> truthy (own_property b (ascii ''team''))
      \<and> team_names env (own_property b (ascii ''team'')) = Inr names
      \<and> phase3_message env (own_property b (ascii ''challenge'')) = Inr m
      \<and> axios_post env (count_posts (trace w)) = Inr data
      \<and> completion_text env data = Inr reply
      \<and> JSON_parse env reply = Inr parsed \<longrightarrow>
        (\<exists>r'. fst (phase3 env b w) = Inr r' \<and> statusCode r' = 200
            \<and> own_property (body r') (ascii ''totalQuestions'') = JNum 5))"
proof (intro conjI impI)
  assume "fst (phase3 env b w) = Inr r \<and> statusCode r = 200"
  then have "fst (phase3 env b w) = Inr r" and "statusCode r = 200"
    by simp_all
  then show "own_property (body r) (ascii ''totalQuestions'') = JNum 5"
    by (rule phase3_trailing_field)
next
  let ?r = "ok (obj_put (ascii ''totalQuestions'') (JNum 5)
                 (spread parsed [(ascii ''phase'', JNum 3)]))"
  assume "\<not> nullish b
      \<and> truthy (own_property b (ascii ''challenge''))
      \<and> truthy (own_property b (ascii ''team''))
      \<and> team_names env (own_property b (ascii ''team'')) = Inr names
      \<and> phase3_message env (own_property b (ascii ''challenge'')) = Inr m
      \<and> axios_post env (count_posts (trace w)) = Inr data
      \<and> completion_text env data = Inr reply
      \<and> JSON_parse env reply = Inr parsed"
  then have run: "fst (phase3 env b w) = Inr ?r"
    by (elim conjE) (rule phase3_success, assumption+)
  have code: "statusCode ?r = 200" by simp
  from run code phase3_trailing_field [OF run code]
  show "\<exists>r'. fst (phase3 env b w) = Inr r' \<and> statusCode r' = 200
            \<and> own_property (body r') (ascii ''totalQuestions'') = JNum 5"
    by blast
qed

text \<open>
  The output announces question 6 of 99; the response says 5.
\<close>

theorem phase3_success_has_five_total_questions_witness:
  "fst (phase3 (sample_env 1000 network_down (claude_reply output_question6))
          request3 initial_world)
   = Inr (ok [(ascii ''phase'', JNum 3), (ascii ''questionNumber'', JNum 6),
              (ascii ''totalQuestions'', JNum 5)])
   \<and> statusCode (ok [(ascii ''phase'', JNum 3), (ascii ''questionNumber'', JNum 6),
              (ascii ''totalQuestions'', JNum 5)]) = 200
   \<and> own_property (body (ok [(ascii ''phase'', JNum 3), (ascii ''questionNumber'', JNum 6),
              (ascii ''totalQuestions'', JNum 5)])) (ascii ''totalQuestions'') = JNum 5
   \<and> JSON_parse (sample_env 1000 network_down (claude_reply output_question6))
        (JStr output_question6)
      = Inr (JObj [(ascii ''questionNumber'', JNum 6), (ascii ''totalQuestions'', JNum 99)])"
proof -
  have code: "statusCode (ok [(ascii ''phase'', JNum 3), (ascii ''questionNumber'', JNum 6),
              (ascii ''totalQuestions'', JNum 5)]) = 200"
    by simp
  have parsed: "JSON_parse (sample_env 1000 network_down (claude_reply output_question6))
        (JStr output_question6)
      = Inr (JObj [(ascii ''questionNumber'', JNum 6), (ascii ''totalQuestions'', JNum 99)])"
    by (simp add: sample_parse)
  show ?thesis
    using phase3_success_has_five_total_questions
      [where env = "sample_env 1000 network_down (claude_reply output_question6)"
         and b = request3 and w = initial_world
         and r = "ok [(ascii ''phase'', JNum 3), (ascii ''questionNumber'', JNum 6),
              (ascii ''totalQuestions'', JNum 5)]"
         and names = "ascii ''Ada, Kurt''"
         and m = "ascii ''Challenge: Should I move abroad?''"
         and data = "JObj [(ascii ''content'',
                 JArr [JObj [(ascii ''type'', JStr (ascii ''text'')),
                             (ascii ''text'', JStr output_question6)]])]"
         and reply = "JStr output_question6"
         and parsed = "JObj [(ascii ''questionNumber'', JNum 6),
                             (ascii ''totalQuestions'', JNum 99)]"]
      question6_output_phase3 code parsed sample_requests(6,7,8) sample_messages(2,3)
      sample_post sample_reply
    by simp
qed

text \<open>
  Claim C9. If the parsed output of the model is an object with a property \<^verbatim>\<open>phase\<close>,
  the success response of each of the three handlers carries that value as its
  \<^verbatim>\<open>phase\<close>, not the constant written before the spread; the fields written after the
  spread keep the server's values.
\<close>

theorem model_output_overrides_phase:
  assumes post: "axios_post env (count_posts (trace w)) = Inr data"
    and reply: "completion_text env data = Inr reply"
    and parsed: "JSON_parse env reply = Inr (JObj kvs)"
    and unique: "distinct (map fst kvs)"
    and phase: "map_of kvs (ascii ''phase'') = Some v"
    and b1: "\<not> nullish b1" "truthy (own_property b1 (ascii ''challenge''))"
    and b2: "\<not> nullish b2" "truthy (own_property b2 (ascii ''challenge''))"
      "truthy (own_property b2 (ascii ''challengeType''))"
      "phase2_message env (own_property b2 (ascii ''challengeType''))
         (own_property b2 (ascii ''challenge'')) = Inr m2"
    and b3: "\<not> nullish b3" "truthy (own_property b3 (ascii ''challenge''))"
      "truthy (own_property b3 (ascii ''team''))"
      "team_names env (own_property b3 (ascii ''team'')) = Inr names"
      "phase3_message env (own_property b3 (ascii ''challenge'')) = Inr m3"
  shows "(\<exists>r1. fst (phase1 env b1 w) = Inr r1 \<and> statusCode r1 = 200
            \<and> own_property (body r1) (ascii ''phase'') = v)
    \<and> (\<exists>r2. fst (phase2 env b2 w) = Inr r2 \<and> statusCode r2 = 200
            \<and> own_property (body r2) (ascii ''phase'') = v
            \<and> own_property (body r2) (ascii ''swapAvailable'') = JBool True
            \<and> own_property (body r2) (ascii ''swapLimit'') = JNum 3)
    \<and> (\<exists>r3. fst (phase3 env b3 w) = Inr r3 \<and> statusCode r3 = 200
            \<and> own_property (body r3) (ascii ''phase'') = v
            \<and> own_property (body r3) (ascii ''totalQuestions'') = JNum 5)"
proof (intro conjI)
  have r1: "fst (phase1 env b1 w) = Inr (ok (spread (JObj kvs) [(ascii ''phase'', JNum 1)]))"
    using b1 post reply parsed by (rule phase1_success)
  have "own_property (body (ok (spread (JObj kvs) [(ascii ''phase'', JNum 1)]))) (ascii ''phase'') = v"
    unfolding response_codes by (rule phase_of_spread [OF unique phase])
  with r1 show "\<exists>r1. fst (phase1 env b1 w) = Inr r1 \<and> statusCode r1 = 200
            \<and> own_property (body r1) (ascii ''phase'') = v"
    by (intro exI [of _ "ok (spread (JObj kvs) [(ascii ''phase'', JNum 1)])"]) simp
next
  let ?r = "ok (obj_put (ascii ''swapLimit'') (JNum 3)
                 (obj_put (ascii ''swapAvailable'') (JBool True)
                   (spread (JObj kvs) [(ascii ''phase'', JNum 2)])))"
  have r2: "fst (phase2 env b2 w) = Inr ?r"
    using b2 post reply parsed by (rule phase2_success)
  have code: "statusCode ?r = 200" by simp
  have "own_property (body ?r) (ascii ''phase'')
          = own_property (JObj (spread (JObj kvs) [(ascii ''phase'', JNum 2)])) (ascii ''phase'')"
    unfolding response_codes
    by (simp only: own_property_put names_differ if_False simp_thms)
  then have "own_property (body ?r) (ascii ''phase'') = v"
    by (simp only: phase_of_spread [OF unique phase])
  with r2 code phase2_trailing_fields [OF r2 code]
  show "\<exists>r2. fst (phase2 env b2 w) = Inr r2 \<and> statusCode r2 = 200
            \<and> own_property (body r2) (ascii ''phase'') = v
            \<and> own_property (body r2) (ascii ''swapAvailable'') = JBool True
            \<and> own_property (body r2) (ascii ''swapLimit'') = JNum 3"
    by blast
next
  let ?r = "ok (obj_put (ascii ''totalQuestions'') (JNum 5)
                 (spread (JObj kvs) [(ascii ''phase'', JNum 3)]))"
  have r3: "fst (phase3 env b3 w) = Inr ?r"
    using b3 post reply parsed by (rule phase3_success)
  have code: "statusCode ?r = 200" by simp
  have "own_property (body ?r) (ascii ''phase'')
          = own_property (JObj (spread (JObj kvs) [(ascii ''phase'', JNum 3)])) (ascii ''phase'')"
    unfolding response_codes
    by (simp only: own_property_put names_differ if_False simp_thms)
  then have "own_property (body ?r) (ascii ''phase'') = v"
    by (simp only: phase_of_spread [OF unique phase])
  with r3 code phase3_trailing_field [OF r3 code]
  show "\<exists>r3. fst (phase3 env b3 w) = Inr r3 \<and> statusCode r3 = 200
            \<and> own_property (body r3) (ascii ''phase'') = v
            \<and> own_property (body r3) (ascii ''totalQuestions'') = JNum 5"
    by blast
qed

text \<open>
  An output with \<^verbatim>\<open>"phase": 7\<close>: all three responses say phase 7.
\<close>

theorem model_output_overrides_phase_witness:
  "own_property (body (ok [(ascii ''phase'', JNum 7), (ascii ''swapLimit'', JNum 0),
              (ascii ''swapAvailable'', JBool False), (ascii ''totalQuestions'', JNum 99)]))
      (ascii ''phase'') = JNum 7
   \<and> fst (phase1 (sample_env 1000 network_down (claude_reply output_overriding))
          request1 initial_world)
     = Inr (ok [(ascii ''phase'', JNum 7), (ascii ''swapLimit'', JNum 0),
              (ascii ''swapAvailable'', JBool False), (ascii ''totalQuestions'', JNum 99)])
   \<and> fst (phase2 (sample_env 1000 network_down (claude_reply output_overriding))
          request2 initial_world)
     = Inr (ok [(ascii ''phase'', JNum 7), (ascii ''swapLimit'', JNum 3),
              (ascii ''swapAvailable'', JBool True), (ascii ''totalQuestions'', JNum 99)])
   \<and> fst (phase3 (sample_env 1000 network_down (claude_reply output_overriding))
          request3 initial_world)
     = Inr (ok [(ascii ''phase'', JNum 7), (ascii ''swapLimit'', JNum 0),
              (ascii ''swapAvailable'', JBool False), (ascii ''totalQuestions'', JNum 5)])"
proof -
  have unique: "distinct (map fst [(ascii ''phase'', JNum 7), (ascii ''swapLimit'', JNum 0),
              (ascii ''swapAvailable'', JBool False), (ascii ''totalQuestions'', JNum 99)])"
    by (simp add: ascii_def)
  have phase: "map_of [(ascii ''phase'', JNum 7), (ascii ''swapLimit'', JNum 0),
              (ascii ''swapAvailable'', JBool False), (ascii ''totalQuestions'', JNum 99)]
              (ascii ''phase'') = Some (JNum 7)"
    by simp
  have parsed: "JSON_parse (sample_env 1000 network_down (claude_reply output_overriding))
                  (JStr output_overriding)
                = Inr (JObj [(ascii ''phase'', JNum 7), (ascii ''swapLimit'', JNum 0),
              (ascii ''swapAvailable'', JBool False), (ascii ''totalQuestions'', JNum 99)])"
    by (simp add: sample_parse)
  show ?thesis
    using model_output_overrides_phase
      [OF sample_post sample_reply parsed unique phase sample_requests(1,2)
          sample_requests(3,4,5) sample_messages(1) sample_requests(6,7,8)
          sample_messages(3,2),
       of initial_world]
      overriding_output_phase1 overriding_output_phase2 overriding_output_phase3
    by simp
qed

section \<open>Validation and remote calls: claims C6, C7, C10 and C8\<close>









text \<open>
  Claim C8. Serving one request sends at most one POST to the model and at most one GET of
  the sheet, whatever the outcomes of the calls; a directory read sends at most one GET and
  the gateway exactly one POST. No call is attempted a second time.
\<close>

theorem each_remote_call_is_made_at_most_once:
  "count_posts (trace (snd (phase1 env b w))) \<le> count_posts (trace w) + 1
   \<and> count_gets (trace (snd (phase1 env b w))) = count_gets (trace w)
   \<and> count_posts (trace (snd (phase2 env b w))) \<le> count_posts (trace w) + 1
   \<and> count_gets (trace (snd (phase2 env b w))) \<le> count_gets (trace w) + 1
   \<and> count_posts (trace (snd (phase3 env b w))) \<le> count_posts (trace w) + 1
   \<and> count_gets (trace (snd (phase3 env b w))) = count_gets (trace w)
   \<and> count_gets (trace (snd (fetchExpertDatabase env w))) \<le> count_gets (trace w) + 1
   \<and> count_posts (trace (snd (fetchExpertDatabase env w))) = count_posts (trace w)
   \<and> count_posts (trace (snd (callClaude env p m w))) = count_posts (trace w) + 1
   \<and> count_gets (trace (snd (callClaude env p m w))) = count_gets (trace w)"
proof -
  have p1: "phase1 env b w = (fst (phase1 env b w), snd (phase1 env b w))" by simp
  have p2: "phase2 env b w = (fst (phase2 env b w), snd (phase2 env b w))" by simp
  have p3: "phase3 env b w = (fst (phase3 env b w), snd (phase3 env b w))" by simp
  have c: "callClaude env p m w = (fst (callClaude env p m w), snd (callClaude env p m w))"
    by simp
  show ?thesis
    using phase1_effect(2,3) [OF p1] phase2_effect(2,3) [OF p2] phase3_effect(2,3) [OF p3]
      fetch_counts(1,2) [of env w] callClaude_effect(3,4) [OF c]
    by blast
qed

text \<open>
  Both remote calls fail during a phase 2 request: one GET, one POST, and the answer is 500.
\<close>

theorem each_remote_call_is_made_at_most_once_witness:
  "count_gets (trace (snd (phase2 offline_env request2 initial_world))) = 1
   \<and> count_posts (trace (snd (phase2 offline_env request2 initial_world))) = 1
   \<and> fst (phase2 offline_env request2 initial_world)
       = Inr \<lparr> statusCode = 500,
                body = JObj [(ascii ''error'', JStr (ascii ''Network Error''))] \<rparr>"
  using each_remote_call_is_made_at_most_once [of offline_env request2 initial_world]
  by (simp add: offline_phase2)

end
